theory Spec2Isabelle
  imports Complex_Main
begin

section \<open>Common values: JSON documents and Python exceptions\<close>

text \<open>
  Task descriptors, provider responses and manifests are Python dictionaries holding JSON
  values. A dictionary is an association list read with \<open>map_of\<close> (the first binding of a
  key is the binding). A finite float is a dyadic rational: mantissa and binary exponent.
\<close>

datatype json =
    JNull
  | JBool bool
  | JInt int
  | JFloat int int
  | JStr string
  | JArr "json list"
  | JObj "(string \<times> json) list"

text \<open>
  The exception classes the sources raise or catch. \<open>AddressValueError\<close> and
  \<open>NetmaskValueError\<close> are the two parse errors of Python's \<open>ipaddress\<close>;
  \<open>HTTPError\<close> is what \<open>raise_for_status\<close> raises.
\<close>

datatype exn =
    ValidationError string
  | CalledProcessError string
  | HTTPError string
  | ConnectionError string
  | OSError string
  | FileNotFoundError string
  | ProcessLookupError
  | AddressValueError string
  | NetmaskValueError string
  | ValueError string
  | TypeError string
  | AttributeError string

text \<open>\<open>str(e)\<close>: the message an exception carries.\<close>

fun str_exn :: "exn \<Rightarrow> string" where
  "str_exn (ValidationError m) = m"
| "str_exn (CalledProcessError m) = m"
| "str_exn (HTTPError m) = m"
| "str_exn (ConnectionError m) = m"
| "str_exn (OSError m) = m"
| "str_exn (FileNotFoundError m) = m"
| "str_exn ProcessLookupError = []"
| "str_exn (AddressValueError m) = m"
| "str_exn (NetmaskValueError m) = m"
| "str_exn (ValueError m) = m"
| "str_exn (TypeError m) = m"
| "str_exn (AttributeError m) = m"

text \<open>
  The two handler classes the sources name. \<open>except OSError\<close> also catches the
  subclasses of \<open>OSError\<close> (the errors of \<open>requests\<close> are among them);
  \<open>except ProcessLookupError\<close> catches that class only.
\<close>

fun is_OSError :: "exn \<Rightarrow> bool" where
  "is_OSError (OSError m) = True"
| "is_OSError (FileNotFoundError m) = True"
| "is_OSError ProcessLookupError = True"
| "is_OSError (HTTPError m) = True"
| "is_OSError (ConnectionError m) = True"
| "is_OSError e = False"

text \<open>Python truthiness of a JSON value (\<open>if x:\<close>).\<close>

fun truthy :: "json \<Rightarrow> bool" where
  "truthy JNull = False"
| "truthy (JBool b) = b"
| "truthy (JInt i) = (i \<noteq> 0)"
| "truthy (JFloat m e) = (m \<noteq> 0)"
| "truthy (JStr s) = (s \<noteq> [])"
| "truthy (JArr xs) = (xs \<noteq> [])"
| "truthy (JObj kvs) = (kvs \<noteq> [])"

text \<open>
  The configuration object as the components read it. \<open>providers\<close> is \<open>None\<close> when the
  object has no such attribute; a provider maps to its \<open>url\<close> attribute, \<open>None\<close> when
  that attribute is missing.
\<close>

record config =
  providers :: "(string \<rightharpoonup> string option) option"
  paths_shared :: string
  paths_results :: string
  paths_ubuntu_images :: string
  vm_memory_mb :: int
  vm_vcpus :: int
  vm_shutdown_timeout :: int
  vm_use_jailer :: bool
  vm_use_real_init :: bool
  vm_network_cidr :: string

section \<open>Provider URL resolution (utils/provider\_resolver.py)\<close>

text \<open>\<open>str.upper\<close> on the ASCII letters; other bytes are left as they are.\<close>

definition upper_char :: "char \<Rightarrow> char" where
  "upper_char c =
     (let n = (of_char c :: nat) in if 97 \<le> n \<and> n \<le> 122 then char_of (n - 32) else c)"

definition upper :: "string \<Rightarrow> string" where
  "upper s = map upper_char s"

definition DEFAULTS :: "string \<rightharpoonup> string" where
  "DEFAULTS = map_of
     [(''ollama'', ''http://localhost:11434/api/generate''),
      (''openai'', ''https://api.openai.com/v1/completions'')]"

text \<open>
  \<open>resolve_provider_url\<close>: the process environment is a map from variable names to values.
  Any exception while reading \<open>config.providers.<provider>.url\<close> is swallowed, which is the
  \<open>None\<close> branches below; a value is used only when it is truthy (set and non-empty).
\<close>

definition resolve_provider_url ::
  "(string \<rightharpoonup> string) \<Rightarrow> string \<Rightarrow> config option \<Rightarrow> string option" where
  "resolve_provider_url environ provider cfg =
     (let env_key = upper provider @ ''_URL'';
          env_val = environ env_key
      in if env_val \<noteq> None \<and> env_val \<noteq> Some [] then env_val
         else
           (let from_cfg =
                  (case cfg of
                     None \<Rightarrow> None
                   | Some c \<Rightarrow>
                       (case providers c of
                          None \<Rightarrow> None
                        | Some ps \<Rightarrow>
                            (case ps provider of
                               None \<Rightarrow> None
                             | Some url \<Rightarrow>
                                 if url \<noteq> None \<and> url \<noteq> Some [] then url else None)))
            in if from_cfg \<noteq> None then from_cfg else DEFAULTS provider))"

section \<open>Bounded retries (provider\_client.py)\<close>

text \<open>
  \<open>post_with_retries\<close> loops over \<open>range(1, retries + 1)\<close>. The network is the function
  \<open>post\<close>: the outcome of the whole \<open>try\<close> body (request, \<open>raise_for_status\<close>, decoding)
  at a given attempt number, \<open>Inl\<close> the exception it raises. The trace records each
  request and each \<open>time.sleep\<close>, in order. The delay is an exact rational where the
  source has a float. \<open>time.sleep\<close> of a negative number raises \<open>ValueError\<close> from inside
  the handler; \<open>raise last_exc\<close> with \<open>last_exc\<close> still \<open>None\<close> raises \<open>TypeError\<close>.
\<close>

datatype io_event = Post int | Sleep rat



text \<open>The attempt numbers requested and the delays slept, read off a trace.\<close>

fun posts :: "io_event list \<Rightarrow> int list" where
  "posts [] = []"
| "posts (Post i # es) = i # posts es"
| "posts (Sleep d # es) = posts es"

fun sleeps :: "io_event list \<Rightarrow> rat list" where
  "sleeps [] = []"
| "sleeps (Post i # es) = sleeps es"
| "sleeps (Sleep d # es) = d # sleeps es"


section \<open>Task-descriptor validation (validation.py)\<close>

text \<open>
  \<open>MCP_TASK_SCHEMA\<close> is a JSON Schema and \<open>validate_mcp_request\<close> hands it to
  \<open>jsonschema.validate\<close>. The schema is kept as data; \<open>validates\<close> interprets the keywords
  the schema uses (\<open>type\<close>, \<open>required\<close>, \<open>properties\<close>, \<open>enum\<close>, \<open>additionalProperties\<close>)
  as the library does: \<open>required\<close>, \<open>properties\<close> and \<open>additionalProperties\<close> constrain
  objects only, a property's subschema applies when the property is present, and an
  integral float counts as an integer (a boolean does not).
\<close>

datatype jtype = TObject | TString | TInteger

datatype schema =
  Schema (s_type: "jtype option") (s_required: "string list")
         (s_properties: "(string \<times> schema) list") (s_enum: "json list option")
         (s_additional: "schema option")

fun is_type :: "jtype \<Rightarrow> json \<Rightarrow> bool" where
  "is_type TObject v = (case v of JObj _ \<Rightarrow> True | _ \<Rightarrow> False)"
| "is_type TString v = (case v of JStr _ \<Rightarrow> True | _ \<Rightarrow> False)"
| "is_type TInteger v =
     (case v of JInt _ \<Rightarrow> True
      | JFloat m e \<Rightarrow> (0 \<le> e \<or> 2 ^ nat (- e) dvd m)
      | _ \<Rightarrow> False)"

fun validates :: "schema \<Rightarrow> json \<Rightarrow> bool" where
  "validates (Schema ty req props en addl) v =
     ((case ty of None \<Rightarrow> True | Some t \<Rightarrow> is_type t v)
      \<and> (case en of None \<Rightarrow> True | Some es \<Rightarrow> v \<in> set es)
      \<and> (case v of
           JObj kvs \<Rightarrow>
             (\<forall>k \<in> set req. map_of kvs k \<noteq> None)
             \<and> (\<forall>p \<in> set props.
                   case map_of kvs (fst p) of None \<Rightarrow> True | Some x \<Rightarrow> validates (snd p) x)
             \<and> (case addl of
                  None \<Rightarrow> True
                | Some s \<Rightarrow>
                    (\<forall>kx \<in> set kvs.
                       fst kx \<in> fst ` set props \<or> map_of kvs (fst kx) \<noteq> Some (snd kx)
                       \<or> validates s (snd kx)))
         | _ \<Rightarrow> True))"

definition MCP_TASK_SCHEMA :: schema where
  "MCP_TASK_SCHEMA =
     Schema (Some TObject) [''task_id'', ''prompt'', ''provider'']
       [(''task_id'', Schema (Some TString) [] [] None None),
        (''prompt'', Schema (Some TString) [] [] None None),
        (''provider'',
           Schema (Some TString) [] [] (Some [JStr ''openai'', JStr ''ollama'']) None),
        (''model'', Schema (Some TString) [] [] None None),
        (''timeout_seconds'', Schema (Some TInteger) [] [] None None),
        (''env_overrides'',
           Schema (Some TObject) [] [] None (Some (Schema (Some TString) [] [] None None)))]
       None None"

definition validate_mcp_request :: "json \<Rightarrow> exn + bool" where
  "validate_mcp_request payload =
     (if validates MCP_TASK_SCHEMA payload then Inr True
      else Inl (ValidationError ''Invalid MCPTaskRequest''))"

text \<open>What the schema asks of the three optional properties of a descriptor.\<close>

definition optional_fields_ok :: "(string \<times> json) list \<Rightarrow> bool" where
  "optional_fields_ok kvs =
     ((case map_of kvs ''model'' of None \<Rightarrow> True | Some x \<Rightarrow> is_type TString x)
      \<and> (case map_of kvs ''timeout_seconds'' of None \<Rightarrow> True | Some x \<Rightarrow> is_type TInteger x)
      \<and> (case map_of kvs ''env_overrides'' of
            None \<Rightarrow> True
          | Some (JObj es) \<Rightarrow>
              (\<forall>kx \<in> set es. map_of es (fst kx) = Some (snd kx) \<longrightarrow> is_type TString (snd kx))
          | Some _ \<Rightarrow> False))"

section \<open>IPv4 networks (Python's \<open>ipaddress\<close>, as the Network Manager uses it)\<close>

text \<open>
  \<open>ipaddress.IPv4Network(cidr, strict=False)\<close> for a string: the text is split at \<open>/\<close>;
  the address part must be four decimal octets, else \<open>AddressValueError\<close>; the part
  after the slash is a prefix length or a dotted netmask or hostmask, else
  \<open>NetmaskValueError\<close>; host bits are masked off. An address is its 32-bit number,
  a Python integer.
\<close>

fun split_on :: "char \<Rightarrow> string \<Rightarrow> string list" where
  "split_on sep [] = [[]]"
| "split_on sep (c # cs) =
     (if c = sep then [] # split_on sep cs
      else (case split_on sep cs of [] \<Rightarrow> [[c]] | w # ws \<Rightarrow> (c # w) # ws))"

definition is_digit :: "char \<Rightarrow> bool" where
  "is_digit c = (let n = (of_char c :: nat) in 48 \<le> n \<and> n \<le> 57)"

definition int_of_digits :: "string \<Rightarrow> int" where
  "int_of_digits s = foldl (\<lambda>a c. 10 * a + ((of_char c :: int) - 48)) 0 s"

definition parse_octet :: "string \<Rightarrow> exn + int" where
  "parse_octet s =
     (if s = [] then Inl (ValueError ''Empty octet not permitted'')
      else if \<not> list_all is_digit s then Inl (ValueError ''Only decimal digits permitted'')
      else if 3 < length s then Inl (ValueError ''At most 3 characters permitted'')
      else if s \<noteq> ''0'' \<and> hd s = CHR ''0'' then Inl (ValueError ''Leading zeros are not permitted'')
      else if 255 < int_of_digits s then Inl (ValueError ''Octet > 255 not permitted'')
      else Inr (int_of_digits s))"

fun pack_octets :: "string list \<Rightarrow> int \<Rightarrow> exn + int" where
  "pack_octets [] acc = Inr acc"
| "pack_octets (s # ss) acc =
     (case parse_octet s of
        Inl e \<Rightarrow> Inl (AddressValueError (str_exn e))
      | Inr n \<Rightarrow> pack_octets ss (256 * acc + n))"

definition ip_int_from_string :: "string \<Rightarrow> exn + int" where
  "ip_int_from_string s =
     (if s = [] then Inl (AddressValueError ''Address cannot be empty'')
      else (let octets = split_on CHR ''.'' s
            in if length octets \<noteq> 4 then Inl (AddressValueError ''Expected 4 octets'')
               else pack_octets octets 0))"

definition ALL_ONES :: int where
  "ALL_ONES = 2 ^ 32 - 1"

definition netmask_of :: "int \<Rightarrow> int" where
  "netmask_of prefixlen = 2 ^ 32 - 2 ^ nat (32 - prefixlen)"

definition prefix_from_prefix_string :: "string \<Rightarrow> exn + int" where
  "prefix_from_prefix_string s =
     (if s = [] \<or> \<not> list_all is_digit s then Inl (NetmaskValueError s)
      else if 32 < int_of_digits s then Inl (NetmaskValueError s)
      else Inr (int_of_digits s))"

definition prefix_from_ip_int :: "int \<Rightarrow> int option" where
  "prefix_from_ip_int m = find (\<lambda>p. netmask_of p = m) [0..32]"

definition prefix_from_ip_string :: "string \<Rightarrow> exn + int" where
  "prefix_from_ip_string s =
     (case ip_int_from_string s of
        Inl e \<Rightarrow> Inl (NetmaskValueError s)
      | Inr m \<Rightarrow>
          (case prefix_from_ip_int m of
             Some p \<Rightarrow> Inr p
           | None \<Rightarrow>
               (case prefix_from_ip_int (ALL_ONES - m) of
                  Some p \<Rightarrow> Inr p
                | None \<Rightarrow> Inl (NetmaskValueError s))))"

definition make_netmask :: "string \<Rightarrow> exn + int" where
  "make_netmask s =
     (case prefix_from_prefix_string s of
        Inr p \<Rightarrow> Inr p
      | Inl e \<Rightarrow> prefix_from_ip_string s)"

record network =
  network_address :: int
  prefixlen :: int

definition IPv4Network :: "string \<Rightarrow> exn + network" where
  "IPv4Network cidr =
     (let parts = split_on CHR ''/'' cidr
      in if 2 < length parts then Inl (AddressValueError ''Only one / permitted'')
         else
           (case ip_int_from_string (hd parts) of
              Inl e \<Rightarrow> Inl e
            | Inr a \<Rightarrow>
                (case (if length parts = 2 then make_netmask (parts ! 1) else Inr 32) of
                   Inl e \<Rightarrow> Inl e
                 | Inr p \<Rightarrow>
                     Inr \<lparr> network_address = (a div 2 ^ nat (32 - p)) * 2 ^ nat (32 - p),
                           prefixlen = p \<rparr>)))"


text \<open>\<open>IPv4Address + int\<close> builds a new address and so rejects a number beyond 32 bits.\<close>

definition address_add :: "int \<Rightarrow> int \<Rightarrow> exn + int" where
  "address_add a k =
     (if a + k < 0 \<or> ALL_ONES < a + k then Inl (AddressValueError ''not permitted in an IPv4 address'')
      else Inr (a + k))"

text \<open>Decimal text of an octet or a prefix length (numbers below 1000).\<close>

definition digit_char :: "int \<Rightarrow> char" where
  "digit_char d = char_of (48 + d)"

definition str_small :: "int \<Rightarrow> string" where
  "str_small n =
     (if n < 10 then [digit_char n]
      else if n < 100 then [digit_char (n div 10), digit_char (n mod 10)]
      else [digit_char (n div 100), digit_char ((n div 10) mod 10), digit_char (n mod 10)])"

definition str_address :: "int \<Rightarrow> string" where
  "str_address a =
     str_small (a div 2 ^ 24 mod 256) @ ''.'' @ str_small (a div 2 ^ 16 mod 256) @ ''.''
       @ str_small (a div 2 ^ 8 mod 256) @ ''.'' @ str_small (a mod 256)"

definition str_network :: "network \<Rightarrow> string" where
  "str_network n = str_address (network_address n) @ ''/'' @ str_small (prefixlen n)"





section \<open>The host: files, processes, interfaces and the two managers' registries\<close>

text \<open>
  The boot configuration \<open>_generate_vm_config\<close> builds (a dictionary in the source), with
  the two later additions \<open>init_img\<close> and the never-set key \<open>provider_response\<close> that
  \<open>_write_manifest\<close> looks for.
\<close>

record vm_config =
  kernel_image_path :: string
  boot_args :: string
  rootfs_path :: string
  shared_drive_path :: string
  host_dev_name :: "string option"
  vcpu_count :: int
  mem_size_mib :: int
  init_img :: "string option"
  cfg_provider_response :: "json option"

text \<open>\<open>VMInstance\<close>. \<open>provider_response\<close> is \<open>None\<close> while the attribute does not exist.\<close>

record vm_instance =
  vm_id :: string
  vm_cfg :: "vm_config option"
  process :: "nat option"
  socket_path :: "string option"
  shared_disk_path :: "string option"
  tap_name :: "string option"
  provider_response :: "json option"

record manifest =
  m_vm_id :: string
  m_image :: string
  m_memory_mb :: int
  m_vcpus :: int
  m_network_mode :: string
  m_created_at :: string
  m_state :: string
  m_provider_response :: "json option"

text \<open>The entry \<open>active_interfaces[vm_id]\<close> of the Network Manager.\<close>

record iface_info =
  if_tap_name :: string
  if_cidr :: string
  if_gateway_ip :: string
  if_vm_ip :: string

datatype content = ManifestDoc manifest | ConfigDoc vm_config | Blob

text \<open>
  What start leaves behind in order: a manifest rename, a launched process, a
  control-plane request with its HTTP status (or the exception of the transport).
\<close>

datatype event =
    ManifestWritten string string
  | Launched "string list" nat
  | Put string "exn + nat"

text \<open>
  One host. \<open>fs\<close> maps the paths that exist to what they hold; \<open>procs\<close> are the live
  process ids; \<open>taps\<close> are the TAP interfaces the kernel has; \<open>commands\<close> are the external
  commands the Network Manager issued; \<open>active_vms\<close> is the VM Manager's registry and \<open>active_interfaces\<close> the
  Network Manager's.
\<close>

record host =
  fs :: "string \<rightharpoonup> content"
  procs :: "nat set"
  taps :: "string set"
  commands :: "string list list"
  active_vms :: "string \<rightharpoonup> vm_instance"
  active_interfaces :: "string \<rightharpoonup> iface_info"
  events :: "event list"

section \<open>Network Manager (network\_manager.py)\<close>



text \<open>
  An external command run with \<open>check=True\<close>: it is recorded, and \<open>run\<close> (the host's
  answer) tells whether it exits with status 0.
\<close>

definition issue :: "string list \<Rightarrow> host \<Rightarrow> host" where
  "issue cmd h = h\<lparr>commands := commands h @ [cmd]\<rparr>"

definition tuntap_add :: "string \<Rightarrow> string list" where
  "tuntap_add tap = [''sudo'', ''ip'', ''tuntap'', ''add'', ''dev'', tap, ''mode'', ''tap'']"

definition addr_add :: "string \<Rightarrow> string \<Rightarrow> string list" where
  "addr_add addr tap = [''sudo'', ''ip'', ''addr'', ''add'', addr, ''dev'', tap]"

definition link_set_mtu :: "string \<Rightarrow> string list" where
  "link_set_mtu tap = [''sudo'', ''ip'', ''link'', ''set'', ''dev'', tap, ''mtu'', ''1500'']"

definition link_set_up :: "string \<Rightarrow> string list" where
  "link_set_up tap = [''sudo'', ''ip'', ''link'', ''set'', ''dev'', tap, ''up'']"

definition link_delete :: "string \<Rightarrow> string list" where
  "link_delete tap = [''sudo'', ''ip'', ''link'', ''delete'', tap]"

text \<open>
  \<open>setup_tap_interface\<close>. The handlers catch \<open>CalledProcessError\<close> and
  \<open>AddressValueError\<close> and return \<open>None\<close>; a \<open>NetmaskValueError\<close> of the parse is not
  caught. The registry entry is built after the four commands, and computing its
  \<open>vm_ip\<close> (network address plus 2) can still raise \<open>AddressValueError\<close>.
\<close>

definition setup_tap_interface ::
  "(string list \<Rightarrow> bool) \<Rightarrow> config \<Rightarrow> string \<Rightarrow> string option \<Rightarrow> host
     \<Rightarrow> (exn + string option) \<times> host" where
  "setup_tap_interface run cfg vmid cidr_arg h =
     (let cidr = (case cidr_arg of None \<Rightarrow> vm_network_cidr cfg | Some c \<Rightarrow> c);
          tap = ''tap'' @ vmid
      in case IPv4Network cidr of
           Inl (AddressValueError m) \<Rightarrow> (Inr None, h)
         | Inl e \<Rightarrow> (Inl e, h)
         | Inr network \<Rightarrow>
             (case address_add (network_address network) 1 of
                Inl e \<Rightarrow> (Inr None, h)
              | Inr gw \<Rightarrow>
                  (let gateway_ip = str_address gw;
                       h1 = issue (tuntap_add tap) h
                   in if \<not> run (tuntap_add tap) then (Inr None, h1)
                      else
                        (let h2 = issue (addr_add (gateway_ip @ ''/'' @ str_small (prefixlen network)) tap)
                                    (h1\<lparr>taps := insert tap (taps h1)\<rparr>)
                         in if \<not> run (addr_add (gateway_ip @ ''/'' @ str_small (prefixlen network)) tap)
                            then (Inr None, h2)
                            else
                              (let h3 = issue (link_set_mtu tap) h2
                               in if \<not> run (link_set_mtu tap) then (Inr None, h3)
                                  else
                                    (let h4 = issue (link_set_up tap) h3
                                     in if \<not> run (link_set_up tap) then (Inr None, h4)
                                        else
                                          (case address_add (network_address network) 2 of
                                             Inl e \<Rightarrow> (Inr None, h4)
                                           | Inr vm_addr \<Rightarrow>
                                               (Inr (Some tap),
                                                h4\<lparr>active_interfaces := (active_interfaces h4)
                                                     (vmid \<mapsto> \<lparr> if_tap_name = tap, if_cidr = cidr,
                                                                if_gateway_ip = gateway_ip,
                                                                if_vm_ip = str_address vm_addr \<rparr>)\<rparr>))))))))"

text \<open>
  \<open>_cleanup_iptables_rules\<close> and \<open>cleanup_networking\<close>. \<open>default_iface\<close> is what
  \<open>_get_default_interface\<close> finds. The deletions run with \<open>check=False\<close>. Re-parsing the
  stored CIDR can raise; \<open>cleanup_networking\<close> catches that, logs, and keeps the entry.
\<close>

definition iptables_delete_rules :: "string \<Rightarrow> string \<Rightarrow> string \<Rightarrow> string list list" where
  "iptables_delete_rules network_cidr default_iface tap =
     [[''sudo'', ''iptables'', ''-t'', ''nat'', ''-D'', ''POSTROUTING'',
       ''-s'', network_cidr, ''-o'', default_iface, ''-j'', ''MASQUERADE''],
      [''sudo'', ''iptables'', ''-D'', ''FORWARD'', ''-i'', tap,
       ''-o'', default_iface, ''-j'', ''ACCEPT''],
      [''sudo'', ''iptables'', ''-D'', ''FORWARD'', ''-i'', default_iface,
       ''-o'', tap, ''-m'', ''state'', ''--state'', ''RELATED,ESTABLISHED'', ''-j'', ''ACCEPT'']]"

definition cleanup_iptables_rules :: "string option \<Rightarrow> iface_info \<Rightarrow> host \<Rightarrow> exn + host" where
  "cleanup_iptables_rules default_iface info h =
     (case default_iface of
        None \<Rightarrow> Inr h
      | Some dev \<Rightarrow>
          if dev = [] then Inr h
          else
            (case IPv4Network (if_cidr info) of
               Inl e \<Rightarrow> Inl e
             | Inr network \<Rightarrow>
                 Inr (h\<lparr>commands := commands h
                          @ iptables_delete_rules (str_network network) dev (if_tap_name info)\<rparr>)))"

definition cleanup_networking :: "string option \<Rightarrow> string \<Rightarrow> host \<Rightarrow> host" where
  "cleanup_networking default_iface vmid h =
     (case active_interfaces h vmid of
        None \<Rightarrow> h
      | Some info \<Rightarrow>
          (case cleanup_iptables_rules default_iface info h of
             Inl e \<Rightarrow> h
           | Inr h1 \<Rightarrow>
               (let h2 = issue (link_delete (if_tap_name info)) h1
                in h2\<lparr>taps := taps h2 - {if_tap_name info},
                      active_interfaces := (active_interfaces h2)(vmid := None)\<rparr>)))"

section \<open>VM Manager (vm\_manager.py): paths, configuration, manifest\<close>

text \<open>
  Paths are strings; \<open>Path(a) / b\<close> is \<open>a/b\<close> (for a relative \<open>b\<close>, which VM identifiers
  and file names are).
\<close>

definition path_join :: "string \<Rightarrow> string \<Rightarrow> string" where
  "path_join d name = d @ ''/'' @ name"

definition shared_disk_file :: "string \<Rightarrow> string" where
  "shared_disk_file vmid = ''/tmp/shared-'' @ vmid @ ''.ext4''"

definition socket_file :: "string \<Rightarrow> string" where
  "socket_file vmid = ''/tmp/firecracker-'' @ vmid @ ''.socket''"

definition vm_config_file :: "string \<Rightarrow> string" where
  "vm_config_file vmid = ''/tmp/vm-config-'' @ vmid @ ''.json''"

definition results_dir :: "config \<Rightarrow> string \<Rightarrow> string" where
  "results_dir cfg vmid = path_join (paths_results cfg) vmid"

definition manifest_file :: "config \<Rightarrow> string \<Rightarrow> string" where
  "manifest_file cfg vmid = path_join (results_dir cfg vmid) ''manifest.json''"

definition guest_tar_file :: "config \<Rightarrow> string \<Rightarrow> string" where
  "guest_tar_file cfg vmid = path_join (results_dir cfg vmid) ''guest.tar.gz''"

definition init_img_file :: "config \<Rightarrow> string \<Rightarrow> string" where
  "init_img_file cfg vmid = path_join (results_dir cfg vmid) ''init-overlay.img''"

text \<open>\<open>Path(p).name\<close>: the last non-empty component.\<close>

definition path_name :: "string \<Rightarrow> string" where
  "path_name p =
     (case filter (\<lambda>w. w \<noteq> []) (split_on CHR ''/'' p) of [] \<Rightarrow> [] | ws \<Rightarrow> last ws)"

text \<open>Dictionary assignment \<open>d[k] = v\<close>: an existing key keeps its place.\<close>

fun dict_set :: "string \<Rightarrow> json \<Rightarrow> (string \<times> json) list \<Rightarrow> (string \<times> json) list" where
  "dict_set k v [] = [(k, v)]"
| "dict_set k v ((k', v') # kvs) =
     (if k = k' then (k, v) # kvs else (k', v') # dict_set k v kvs)"

definition generate_vm_config :: "config \<Rightarrow> vm_instance \<Rightarrow> vm_config" where
  "generate_vm_config cfg inst =
     \<lparr> kernel_image_path = path_join (paths_ubuntu_images cfg) ''vmlinux.bin'',
       boot_args = ''console=ttyS0 reboot=k panic=1 pci=off init=/ssl_agent.sh ''
                     @ ''VM_IP=172.50.0.2 GATEWAY_IP=172.50.0.1'',
       rootfs_path = path_join (paths_ubuntu_images cfg) ''ubuntu-rootfs.ext4'',
       shared_drive_path = (case shared_disk_path inst of None \<Rightarrow> ''None'' | Some p \<Rightarrow> p),
       host_dev_name = tap_name inst,
       vcpu_count = vm_vcpus cfg,
       mem_size_mib = vm_memory_mb cfg,
       init_img = None,
       cfg_provider_response = None \<rparr>"

text \<open>
  \<open>_write_manifest\<close>. The provider response is looked up in the boot configuration first
  and on the instance second, and only a truthy one is stored. The file operations
  (directory, temporary file, rename) are one step of the host: \<open>io_write state\<close> is the
  exception they raise, if any; the rename being last, a failed write leaves
  \<open>manifest.json\<close> as it was. \<open>now\<close> is the clock's timestamp.
\<close>

definition manifest_provider :: "vm_instance \<Rightarrow> json option" where
  "manifest_provider inst =
     (let from_cfg = (case vm_cfg inst of None \<Rightarrow> None | Some c \<Rightarrow> cfg_provider_response c);
          prov = (if (case from_cfg of None \<Rightarrow> True | Some p \<Rightarrow> \<not> truthy p)
                     \<and> provider_response inst \<noteq> None
                  then provider_response inst else from_cfg)
      in case prov of None \<Rightarrow> None | Some p \<Rightarrow> if truthy p then Some p else None)"

definition write_manifest ::
  "config \<Rightarrow> (string \<Rightarrow> exn option) \<Rightarrow> string \<Rightarrow> vm_instance \<Rightarrow> string \<Rightarrow> host
     \<Rightarrow> exn option \<times> host" where
  "write_manifest cfg io_write now inst state h =
     (let manifest =
            \<lparr> m_vm_id = vm_id inst,
              m_image = path_name (paths_ubuntu_images cfg),
              m_memory_mb = vm_memory_mb cfg,
              m_vcpus = vm_vcpus cfg,
              m_network_mode = ''slirp'',
              m_created_at = now,
              m_state = state,
              m_provider_response = manifest_provider inst \<rparr>
      in case io_write state of
           Some e \<Rightarrow> (Some e, h)
         | None \<Rightarrow>
             (None,
              h\<lparr>fs := (fs h)(manifest_file cfg (vm_id inst) \<mapsto> ManifestDoc manifest),
                 events := events h @ [ManifestWritten (vm_id inst) state]\<rparr>))"

text \<open>Reading the manifest of a VM back: its \<open>state\<close> field, if the file holds a manifest.\<close>

definition manifest_state :: "config \<Rightarrow> string \<Rightarrow> host \<Rightarrow> string option" where
  "manifest_state cfg vmid h =
     (case fs h (manifest_file cfg vmid) of
        Some (ManifestDoc m) \<Rightarrow> Some (m_state m)
      | _ \<Rightarrow> None)"


section \<open>VM Manager: create\<close>

text \<open>
  \<open>create_shared_disk\<close> runs \<open>dd\<close>, \<open>mkfs.ext4\<close> and \<open>mount\<close>, fills the image, and unmounts
  in a \<open>finally\<close>; each step runs with \<open>check=True\<close>. \<open>ok\<close> tells which steps succeed. The
  image file exists once \<open>dd\<close> has run; the content of the image is not tracked.
\<close>

datatype disk_step = Dd | Mkfs | Mount | Populate | Umount

definition create_shared_disk ::
  "(disk_step \<Rightarrow> bool) \<Rightarrow> string \<Rightarrow> host \<Rightarrow> (exn + string) \<times> host" where
  "create_shared_disk ok vmid h =
     (if \<not> ok Dd then (Inl (CalledProcessError ''dd''), h)
      else
        (let h1 = h\<lparr>fs := (fs h)(shared_disk_file vmid \<mapsto> Blob)\<rparr>
         in if \<not> ok Mkfs then (Inl (CalledProcessError ''mkfs.ext4''), h1)
            else if \<not> ok Mount then (Inl (CalledProcessError ''mount''), h1)
            else if \<not> ok Umount then (Inl (CalledProcessError ''umount''), h1)
            else if \<not> ok Populate then (Inl (CalledProcessError ''populate''), h1)
            else (Inr (shared_disk_file vmid), h1)))"

text \<open>
  The guest artifacts. \<open>create_guest_tar\<close> writes the archive; \<open>create_init_overlay\<close>
  writes a placeholder in a dry run and otherwise needs its script to exist and to
  succeed. \<open>tar_result\<close> and \<open>overlay_result\<close> are the exceptions of the writes, if any.
\<close>

definition init_overlay_script :: string where
  "init_overlay_script = ''.specify/scripts/create_init_overlay.sh''"

definition create_guest_tar :: "exn option \<Rightarrow> string \<Rightarrow> host \<Rightarrow> exn option \<times> host" where
  "create_guest_tar tar_result out_path h =
     (case tar_result of
        Some e \<Rightarrow> (Some e, h)
      | None \<Rightarrow> (None, h\<lparr>fs := (fs h)(out_path \<mapsto> Blob)\<rparr>))"

definition create_init_overlay ::
  "exn option \<Rightarrow> string \<Rightarrow> bool \<Rightarrow> host \<Rightarrow> exn option \<times> host" where
  "create_init_overlay overlay_result out_img dry_run h =
     (if dry_run then
        (case overlay_result of
           Some e \<Rightarrow> (Some e, h)
         | None \<Rightarrow> (None, h\<lparr>fs := (fs h)(out_img \<mapsto> Blob)\<rparr>))
      else if fs h init_overlay_script = None
        then (Some (FileNotFoundError ''init overlay script not found''), h)
      else
        (case overlay_result of
           Some e \<Rightarrow> (Some e, h)
         | None \<Rightarrow> (None, h\<lparr>fs := (fs h)(out_img \<mapsto> Blob)\<rparr>)))"

text \<open>What the host and the outside world answer during one \<open>create_vm\<close>.\<close>

record create_env =
  ce_environ :: "string \<rightharpoonup> string"
  ce_call_provider :: "string \<Rightarrow> string option \<Rightarrow> json option \<Rightarrow> json option \<Rightarrow> exn + json"
  ce_disk :: "disk_step \<Rightarrow> bool"
  ce_mkdir_results :: "exn option"
  ce_guest_tar :: "exn option"
  ce_init_overlay :: "exn option"
  ce_manifest_write :: "string \<Rightarrow> exn option"
  ce_now :: string

text \<open>
  The first half of \<open>create_vm\<close>: validation and the provider call. It returns the task
  data as the caller sees it afterwards (the dictionary is updated in place). An
  exception of the provider call becomes the payload \<open>{"error": str(e)}\<close>.
\<close>

definition error_payload :: "exn \<Rightarrow> json" where
  "error_payload e = JObj [(''error'', JStr (str_exn e))]"

text \<open>The provider call \<open>create_vm\<close> makes for a descriptor that names provider \<open>p\<close>.\<close>

definition provider_answer :: "config \<Rightarrow> create_env \<Rightarrow> (string \<times> json) list \<Rightarrow> string \<Rightarrow> exn + json" where
  "provider_answer cfg env kvs p =
     ce_call_provider env p (resolve_provider_url (ce_environ env) p (Some cfg))
       (map_of kvs ''model'') (map_of kvs ''prompt'')"

definition call_provider_step ::
  "config \<Rightarrow> create_env \<Rightarrow> json option \<Rightarrow> exn + json option" where
  "call_provider_step cfg env task_data =
     (case task_data of
        None \<Rightarrow> Inr None
      | Some td \<Rightarrow>
          if \<not> truthy td then Inr (Some td)
          else
            (case validate_mcp_request td of
               Inl e \<Rightarrow> Inl e
             | Inr ok \<Rightarrow>
                 (case td of
                    JObj kvs \<Rightarrow>
                      (case map_of kvs ''provider'' of
                         None \<Rightarrow> Inr (Some td)
                       | Some provider \<Rightarrow>
                           if \<not> truthy provider then Inr (Some td)
                           else
                             (case provider of
                                JStr p \<Rightarrow>
                                  (let provider_resp =
                                         (case provider_answer cfg env kvs p of
                                            Inl e \<Rightarrow> error_payload e
                                          | Inr r \<Rightarrow> r);
                                       kvs1 = (if (case map_of kvs ''env_overrides'' of
                                                     None \<Rightarrow> True | Some x \<Rightarrow> \<not> truthy x)
                                               then dict_set ''env_overrides'' (JObj []) kvs
                                               else kvs)
                                   in Inr (Some (JObj (dict_set ''provider_response'' provider_resp kvs1))))
                              | _ \<Rightarrow> Inl (AttributeError ''upper'')))
                  | _ \<Rightarrow> Inl (AttributeError ''get''))))"

text \<open>
  \<open>create_vm\<close>. The result is the instance or the exception raised, the task data after
  the call, and the host after the call. Failures while preparing the guest artifacts
  and while writing the manifest are logged and swallowed.
\<close>

definition task_provider_response :: "json option \<Rightarrow> json option" where
  "task_provider_response task_data =
     (case task_data of
        Some (JObj kvs) \<Rightarrow> if kvs \<noteq> [] then map_of kvs ''provider_response'' else None
      | _ \<Rightarrow> None)"

definition prepare_guest_artifacts ::
  "config \<Rightarrow> create_env \<Rightarrow> vm_instance \<Rightarrow> host \<Rightarrow> vm_instance \<times> host" where
  "prepare_guest_artifacts cfg env inst h =
     (case create_guest_tar (ce_guest_tar env) (guest_tar_file cfg (vm_id inst)) h of
        (Some e, h1) \<Rightarrow> (inst, h1)
      | (None, h1) \<Rightarrow>
          (case create_init_overlay (ce_init_overlay env) (init_img_file cfg (vm_id inst))
                  (\<not> vm_use_real_init cfg) h1 of
             (Some e, h2) \<Rightarrow> (inst, h2)
           | (None, h2) \<Rightarrow>
               (inst\<lparr>shared_disk_path := Some (guest_tar_file cfg (vm_id inst)),
                     vm_cfg := map_option (\<lambda>c. c\<lparr>init_img := Some (init_img_file cfg (vm_id inst))\<rparr>)
                                 (vm_cfg inst)\<rparr>,
                h2)))"

definition create_vm ::
  "config \<Rightarrow> create_env \<Rightarrow> string \<Rightarrow> json option \<Rightarrow> host
     \<Rightarrow> (exn + vm_instance) \<times> json option \<times> host" where
  "create_vm cfg env vmid task_data h =
     (case call_provider_step cfg env task_data of
        Inl e \<Rightarrow> (Inl e, task_data, h)
      | Inr td \<Rightarrow>
          (let inst0 = \<lparr> vm_id = vmid, vm_cfg = None, process = None,
                         socket_path = Some (socket_file vmid), shared_disk_path = None,
                         tap_name = Some (''tap'' @ vmid),
                         provider_response = task_provider_response td \<rparr>
           in case create_shared_disk (ce_disk env) vmid h of
                (Inl e, h1) \<Rightarrow> (Inl e, td, h1)
              | (Inr disk, h1) \<Rightarrow>
                  (let inst1 = inst0\<lparr>shared_disk_path := Some disk\<rparr>;
                       inst2 = inst1\<lparr>vm_cfg := Some (generate_vm_config cfg inst1)\<rparr>
                   in case ce_mkdir_results env of
                        Some e \<Rightarrow> (Inl e, td, h1)
                      | None \<Rightarrow>
                          (case prepare_guest_artifacts cfg env inst2 h1 of
                             (inst3, h2) \<Rightarrow>
                               (let h3 = snd (write_manifest cfg (ce_manifest_write env) (ce_now env)
                                                inst3 ''pending'' h2)
                                in (Inr inst3, td,
                                    h3\<lparr>active_vms := (active_vms h3)(vmid \<mapsto> inst3)\<rparr>))))))"

section \<open>Launcher and control-plane client (launcher.py, firecracker\_client.py)\<close>

text \<open>What the host and the microVM answer during one \<open>start_vm\<close>.\<close>

record start_env =
  se_write_config :: "exn option"
  se_which_jailer :: "string option"
  se_popen :: "string list \<Rightarrow> exn + nat"
  se_manifest_write :: "string \<Rightarrow> exn option"
  se_http_put :: "string \<Rightarrow> exn + nat"
  se_now :: string

definition dev_launcher :: string where
  "dev_launcher = ''.specify/scripts/launch_firecracker_without_jailer.sh''"

text \<open>
  \<open>start_launcher\<close>: the jailer when asked for and found, else the development script
  when it exists, else a placeholder command. The two log files are opened before the
  process is spawned; the pid file is written after. \<open>popen\<close> answers with the process
  id or with the exception of the spawn.
\<close>

definition launcher_cmd ::
  "start_env \<Rightarrow> string \<Rightarrow> string \<Rightarrow> bool \<Rightarrow> string list \<Rightarrow> host \<Rightarrow> string list" where
  "launcher_cmd env vmid config_path use_jailer extra_args h =
     (let jailer_path = (if use_jailer
                         then (case se_which_jailer env of
                                 None \<Rightarrow> None | Some p \<Rightarrow> if p = [] then None else Some p)
                         else None)
      in case jailer_path of
           Some j \<Rightarrow> [j, ''--vm-id'', vmid, ''--config'', config_path]
         | None \<Rightarrow>
             if fs h dev_launcher \<noteq> None
             then (if extra_args \<noteq> [] then [dev_launcher, vmid, config_path] @ extra_args
                   else [dev_launcher, vmid, config_path])
             else [''/bin/sleep'', ''60''])"

definition start_launcher ::
  "start_env \<Rightarrow> string \<Rightarrow> string \<Rightarrow> string \<Rightarrow> bool \<Rightarrow> string list \<Rightarrow> host
     \<Rightarrow> (exn + nat) \<times> host" where
  "start_launcher env vmid config_path results_root use_jailer extra_args h =
     (let cmd = launcher_cmd env vmid config_path use_jailer extra_args h;
          dir = path_join results_root vmid;
          h1 = h\<lparr>fs := (fs h)(path_join dir ''launcher.out'' \<mapsto> Blob,
                               path_join dir ''launcher.err'' \<mapsto> Blob)\<rparr>
      in case se_popen env cmd of
           Inl e \<Rightarrow> (Inl e, h1)
         | Inr pid \<Rightarrow>
             (Inr pid,
              h1\<lparr>fs := (fs h1)(path_join dir ''launcher.pid'' \<mapsto> Blob),
                  procs := insert pid (procs h1),
                  events := events h1 @ [Launched cmd pid]\<rparr>))"

text \<open>
  \<open>put_json\<close>: one PUT. 204 is success; \<open>raise_for_status\<close> raises for a status from 400
  to 599; any other status makes the function return \<open>False\<close>.
\<close>

definition unix_socket_url :: "string \<Rightarrow> string \<Rightarrow> string" where
  "unix_socket_url sock path = ''http+unix://'' @ sock @ '':'' @ path"

definition put_outcome :: "exn + nat \<Rightarrow> exn + bool" where
  "put_outcome answer =
     (case answer of
        Inl e \<Rightarrow> Inl e
      | Inr status \<Rightarrow>
          if status = 204 then Inr True
          else if 400 \<le> status \<and> status < 600 then Inl (HTTPError ''status'')
          else Inr False)"

definition put_json :: "start_env \<Rightarrow> string \<Rightarrow> string \<Rightarrow> host \<Rightarrow> (exn + bool) \<times> host" where
  "put_json env sock path h =
     (let answer = se_http_put env (unix_socket_url sock path)
      in (put_outcome answer, h\<lparr>events := events h @ [Put path answer]\<rparr>))"

section \<open>VM Manager: start\<close>

text \<open>
  The \<open>except\<close> branch of \<open>start_vm\<close>: the manifest is rewritten to \<open>failed\<close> (a failure of
  that write is logged and swallowed) and the exception is raised again.
\<close>

definition start_failed ::
  "config \<Rightarrow> start_env \<Rightarrow> exn \<Rightarrow> vm_instance \<Rightarrow> host \<Rightarrow> (exn + nat) \<times> vm_instance \<times> host" where
  "start_failed cfg env e inst h =
     (Inl e, inst, snd (write_manifest cfg (se_manifest_write env) (se_now env) inst ''failed'' h))"

text \<open>
  The \<open>try\<close> block of \<open>start_vm\<close>, in the order of the source: launcher, process handle,
  manifest to \<open>running\<close>, then the two control-plane requests, whose return values are
  not looked at.
\<close>

definition start_try ::
  "config \<Rightarrow> start_env \<Rightarrow> vm_instance \<Rightarrow> host \<Rightarrow> (exn + nat) \<times> vm_instance \<times> host" where
  "start_try cfg env inst h =
     (case vm_cfg inst of
        None \<Rightarrow> start_failed cfg env (TypeError ''NoneType object is not subscriptable'') inst h
      | Some c \<Rightarrow>
          (case start_launcher env (vm_id inst) (vm_config_file (vm_id inst)) (paths_results cfg)
                  (vm_use_jailer cfg) [kernel_image_path c, rootfs_path c] h of
             (Inl e, h1) \<Rightarrow> start_failed cfg env e inst h1
           | (Inr pid, h1) \<Rightarrow>
               (let inst1 = inst\<lparr>process := Some pid\<rparr>
                in case write_manifest cfg (se_manifest_write env) (se_now env) inst1 ''running'' h1 of
                     (Some e, h2) \<Rightarrow> start_failed cfg env e inst1 h2
                   | (None, h2) \<Rightarrow>
                       (let sock = (case socket_path inst1 of None \<Rightarrow> ''None'' | Some p \<Rightarrow> p)
                        in case put_json env sock ''/boot-source'' h2 of
                             (Inl e, h3) \<Rightarrow> start_failed cfg env e inst1 h3
                           | (Inr b1, h3) \<Rightarrow>
                               (case put_json env sock ''/machine-config'' h3 of
                                  (Inl e, h4) \<Rightarrow> start_failed cfg env e inst1 h4
                                | (Inr b2, h4) \<Rightarrow> (Inr pid, inst1, h4))))))"

text \<open>
  \<open>start_vm\<close>. Before the \<open>try\<close>: the API key is appended to the boot arguments, the
  boot configuration is written to its file, a stale socket is removed. An exception
  there leaves the function directly. The instance is an object the registry may hold
  too, so the registry entry follows the instance when it is that instance.
\<close>

definition sync_registry :: "vm_instance \<Rightarrow> vm_instance \<Rightarrow> host \<Rightarrow> host" where
  "sync_registry old new h =
     (if active_vms h (vm_id old) = Some old
      then h\<lparr>active_vms := (active_vms h)(vm_id old \<mapsto> new)\<rparr> else h)"

definition with_api_key :: "vm_instance \<Rightarrow> string option \<Rightarrow> vm_instance" where
  "with_api_key inst openai_api_key =
     (case openai_api_key of
        None \<Rightarrow> inst
      | Some k \<Rightarrow>
          if k = [] then inst
          else inst\<lparr>vm_cfg := map_option
                        (\<lambda>c. c\<lparr>boot_args := boot_args c @ '' OPENAI_API_KEY='' @ k\<rparr>)
                        (vm_cfg inst)\<rparr>)"

definition config_written :: "vm_instance \<Rightarrow> host \<Rightarrow> host" where
  "config_written inst h =
     h\<lparr>fs := (fs h)(vm_config_file (vm_id inst) \<mapsto>
                  (case vm_cfg inst of None \<Rightarrow> Blob | Some c \<Rightarrow> ConfigDoc c))\<rparr>"

definition stale_socket_removed :: "vm_instance \<Rightarrow> host \<Rightarrow> host" where
  "stale_socket_removed inst h =
     (case socket_path inst of None \<Rightarrow> h | Some p \<Rightarrow> h\<lparr>fs := (fs h)(p := None)\<rparr>)"

definition start_vm ::
  "config \<Rightarrow> start_env \<Rightarrow> vm_instance \<Rightarrow> string option \<Rightarrow> host
     \<Rightarrow> (exn + nat) \<times> vm_instance \<times> host" where
  "start_vm cfg env inst openai_api_key h =
     (if (case openai_api_key of None \<Rightarrow> False | Some k \<Rightarrow> k \<noteq> []) \<and> vm_cfg inst = None
      then (Inl (TypeError ''NoneType object is not subscriptable''), inst, h)
      else
        (let inst1 = with_api_key inst openai_api_key
         in case se_write_config env of
              Some e \<Rightarrow> (Inl e, inst1, sync_registry inst inst1 h)
            | None \<Rightarrow>
                (case start_try cfg env inst1
                        (stale_socket_removed inst1 (config_written inst1 h)) of
                   (r, inst2, h3) \<Rightarrow> (r, inst2, sync_registry inst inst2 h3))))"

text \<open>
  Two readings of the events of a start. \<open>puts_after_running\<close>: every control-plane
  request comes after the manifest write to \<open>running\<close>. \<open>running_after_config\<close>: a
  manifest write to \<open>running\<close> comes only after both documents were accepted with 204.
\<close>

fun puts_after_running :: "string \<Rightarrow> bool \<Rightarrow> event list \<Rightarrow> bool" where
  "puts_after_running v seen [] = True"
| "puts_after_running v seen (ManifestWritten v' s # es) =
     puts_after_running v (seen \<or> (v' = v \<and> s = ''running'')) es"
| "puts_after_running v seen (Launched cmd pid # es) = puts_after_running v seen es"
| "puts_after_running v seen (Put p a # es) = (seen \<and> puts_after_running v seen es)"

fun running_after_config :: "string \<Rightarrow> bool \<Rightarrow> bool \<Rightarrow> event list \<Rightarrow> bool" where
  "running_after_config v boot machine [] = True"
| "running_after_config v boot machine (ManifestWritten v' s # es) =
     ((v' = v \<and> s = ''running'' \<longrightarrow> boot \<and> machine) \<and> running_after_config v boot machine es)"
| "running_after_config v boot machine (Launched cmd pid # es) = running_after_config v boot machine es"
| "running_after_config v boot machine (Put p a # es) =
     running_after_config v (boot \<or> (p = ''/boot-source'' \<and> a = Inr 204))
       (machine \<or> (p = ''/machine-config'' \<and> a = Inr 204)) es"

text \<open>The events one call appended: those of the host after it, beyond those before it.\<close>

definition new_events :: "host \<Rightarrow> host \<Rightarrow> event list" where
  "new_events before after = drop (length (events before)) (events after)"

text \<open>
  A start raised from inside its \<open>try\<close> block: the steps before the block went through
  and the call ended with an exception.
\<close>

definition raised_in_try :: "start_env \<Rightarrow> vm_instance \<Rightarrow> string option \<Rightarrow> (exn + nat) \<Rightarrow> bool" where
  "raised_in_try env inst openai_api_key result =
     (se_write_config env = None
      \<and> \<not> ((case openai_api_key of None \<Rightarrow> False | Some k \<Rightarrow> k \<noteq> []) \<and> vm_cfg inst = None)
      \<and> isl result)"

section \<open>VM Manager: stop\<close>

text \<open>
  What the host answers during one \<open>stop_vm\<close>: the exception of \<open>terminate()\<close>, if any,
  whether the process exits within the shutdown timeout, the exception of \<open>kill()\<close>, if
  any, and for each path the exception of its \<open>unlink()\<close>, if any.
\<close>

record stop_env =
  te_terminate :: "exn option"
  te_graceful :: bool
  te_kill :: "exn option"
  te_unlink :: "string \<Rightarrow> exn option"

text \<open>
  Terminating the process. The whole block sits in a handler for \<open>ProcessLookupError\<close>
  only; any other exception leaves \<open>stop_vm\<close>.
\<close>

definition terminate_process :: "stop_env \<Rightarrow> nat \<Rightarrow> host \<Rightarrow> exn option \<times> host" where
  "terminate_process env pid h =
     (case te_terminate env of
        Some e \<Rightarrow> if e = ProcessLookupError then (None, h\<lparr>procs := procs h - {pid}\<rparr>) else (Some e, h)
      | None \<Rightarrow>
          if te_graceful env then (None, h\<lparr>procs := procs h - {pid}\<rparr>)
          else
            (case te_kill env of
               Some e \<Rightarrow>
                 if e = ProcessLookupError then (None, h\<lparr>procs := procs h - {pid}\<rparr>) else (Some e, h)
             | None \<Rightarrow> (None, h\<lparr>procs := procs h - {pid}\<rparr>)))"

text \<open>
  One best-effort deletion of \<open>_cleanup_vm_files\<close>: the path is unlinked when it exists;
  an \<open>OSError\<close> is logged and swallowed.
\<close>

definition remove_file :: "stop_env \<Rightarrow> string \<Rightarrow> host \<Rightarrow> exn option \<times> host" where
  "remove_file env p h =
     (if fs h p = None then (None, h)
      else
        (case te_unlink env p of
           None \<Rightarrow> (None, h\<lparr>fs := (fs h)(p := None)\<rparr>)
         | Some e \<Rightarrow> if is_OSError e then (None, h) else (Some e, h)))"

definition remove_optional :: "stop_env \<Rightarrow> string option \<Rightarrow> host \<Rightarrow> exn option \<times> host" where
  "remove_optional env p h = (case p of None \<Rightarrow> (None, h) | Some q \<Rightarrow> remove_file env q h)"

text \<open>
  \<open>_cleanup_vm_files\<close>: the socket, then whatever \<open>shared_disk_path\<close> names, then the
  boot-configuration file.
\<close>

definition cleanup_vm_files :: "stop_env \<Rightarrow> vm_instance \<Rightarrow> host \<Rightarrow> exn option \<times> host" where
  "cleanup_vm_files env inst h =
     (case remove_optional env (socket_path inst) h of
        (Some e, h1) \<Rightarrow> (Some e, h1)
      | (None, h1) \<Rightarrow>
          (case remove_optional env (shared_disk_path inst) h1 of
             (Some e, h2) \<Rightarrow> (Some e, h2)
           | (None, h2) \<Rightarrow> remove_file env (vm_config_file (vm_id inst)) h2))"

text \<open>
  \<open>stop_vm\<close>: terminate the process if there is one and it is alive (\<open>poll()\<close> is
  \<open>None\<close>), clean up the files, drop the instance from the registry. The result is the
  exception raised, if any, and the host afterwards.
\<close>

definition terminate_if_alive :: "stop_env \<Rightarrow> vm_instance \<Rightarrow> host \<Rightarrow> exn option \<times> host" where
  "terminate_if_alive env inst h =
     (case process inst of
        None \<Rightarrow> (None, h)
      | Some pid \<Rightarrow> if pid \<in> procs h then terminate_process env pid h else (None, h))"

definition stop_vm :: "stop_env \<Rightarrow> vm_instance \<Rightarrow> host \<Rightarrow> exn option \<times> host" where
  "stop_vm env inst h =
     (case terminate_if_alive env inst h of
        (Some e, h1) \<Rightarrow> (Some e, h1)
      | (None, h1) \<Rightarrow>
          (case cleanup_vm_files env inst h1 of
             (Some e, h2) \<Rightarrow> (Some e, h2)
           | (None, h2) \<Rightarrow> (None, h2\<lparr>active_vms := (active_vms h2)(vm_id inst := None)\<rparr>)))"

text \<open>
  The paths \<open>_cleanup_vm_files\<close> tries to delete for an instance, and the hosts on which
  stopping raises nothing the handlers do not catch: terminating and killing raise at
  most \<open>ProcessLookupError\<close>, deleting a file raises at most an \<open>OSError\<close>.
\<close>

definition cleanup_paths :: "vm_instance \<Rightarrow> string set" where
  "cleanup_paths inst =
     set_option (socket_path inst) \<union> set_option (shared_disk_path inst)
       \<union> {vm_config_file (vm_id inst)}"

definition only_caught_errors :: "stop_env \<Rightarrow> bool" where
  "only_caught_errors env =
     ((te_terminate env = None \<or> te_terminate env = Some ProcessLookupError)
      \<and> (te_kill env = None \<or> te_kill env = Some ProcessLookupError)
      \<and> (\<forall>p e. te_unlink env p = Some e \<longrightarrow> is_OSError e))"

section \<open>Concrete inputs\<close>

text \<open>A configuration whose \<open>providers.ollama.url\<close> is set, as in the resolver's tests.\<close>

definition cfg_ollama :: config where
  "cfg_ollama =
     \<lparr> providers = Some [''ollama'' \<mapsto> Some ''http://cfg-ollama''],
       paths_shared = ''/tmp/firecracker-shared'',
       paths_results = ''/tmp/firecracker-results'',
       paths_ubuntu_images = ''/tmp'',
       vm_memory_mb = 1024, vm_vcpus = 1, vm_shutdown_timeout = 1,
       vm_use_jailer = False, vm_use_real_init = False,
       vm_network_cidr = ''10.0.0.0/24'' \<rparr>"




text \<open>Task descriptors: a complete one, and three that the schema rejects.\<close>

definition task_ok :: json where
  "task_ok = JObj [(''task_id'', JStr ''t1''), (''prompt'', JStr ''hi''), (''provider'', JStr ''ollama'')]"

definition task_no_provider :: json where
  "task_no_provider = JObj [(''task_id'', JStr ''t1''), (''prompt'', JStr ''hi'')]"

definition task_description_only :: json where
  "task_description_only =
     JObj [(''task_id'', JStr ''t1''), (''description'', JStr ''hi''), (''provider'', JStr ''ollama'')]"

definition task_bad_model :: json where
  "task_bad_model =
     JObj [(''task_id'', JStr ''t1''), (''prompt'', JStr ''hi''), (''provider'', JStr ''ollama''),
           (''model'', JInt 5)]"

text \<open>An empty host, and a host on which every external command succeeds.\<close>

definition host0 :: host where
  "host0 = \<lparr> fs = Map.empty, procs = {}, taps = {}, commands = [],
             active_vms = Map.empty, active_interfaces = Map.empty, events = [] \<rparr>"

definition run_ok :: "string list \<Rightarrow> bool" where
  "run_ok cmd = True"


text \<open>
  Answers of the host for a \<open>create_vm\<close>: everything works; the provider is unreachable;
  \<open>dd\<close> fails; the manifest cannot be written.
\<close>

definition provider_replies :: "string \<Rightarrow> string option \<Rightarrow> json option \<Rightarrow> json option \<Rightarrow> exn + json" where
  "provider_replies provider url model prompt = Inr (JObj [(''reply'', JStr ''ok'')])"


definition disk_ok :: "disk_step \<Rightarrow> bool" where
  "disk_ok step = True"


definition write_ok :: "string \<Rightarrow> exn option" where
  "write_ok state = None"

definition write_fails :: "string \<Rightarrow> exn option" where
  "write_fails state = Some (OSError ''No space left on device'')"

definition create_env_ok :: create_env where
  "create_env_ok =
     \<lparr> ce_environ = Map.empty, ce_call_provider = provider_replies, ce_disk = disk_ok,
       ce_mkdir_results = None, ce_guest_tar = None, ce_init_overlay = None,
       ce_manifest_write = write_ok, ce_now = ''2025-01-01T00:00:00Z'' \<rparr>"




text \<open>The instance that \<open>create_vm\<close> builds for \<open>vm1\<close> on this configuration.\<close>

definition inst_vm1 :: vm_instance where
  "inst_vm1 =
     \<lparr> vm_id = ''vm1'',
       vm_cfg = Some \<lparr> kernel_image_path = ''/tmp/vmlinux.bin'',
                       boot_args = ''console=ttyS0 reboot=k panic=1 pci=off init=/ssl_agent.sh ''
                                     @ ''VM_IP=172.50.0.2 GATEWAY_IP=172.50.0.1'',
                       rootfs_path = ''/tmp/ubuntu-rootfs.ext4'',
                       shared_drive_path = ''/tmp/shared-vm1.ext4'',
                       host_dev_name = Some ''tapvm1'',
                       vcpu_count = 1, mem_size_mib = 1024,
                       init_img = Some ''/tmp/firecracker-results/vm1/init-overlay.img'',
                       cfg_provider_response = None \<rparr>,
       process = None,
       socket_path = Some ''/tmp/firecracker-vm1.socket'',
       shared_disk_path = Some ''/tmp/firecracker-results/vm1/guest.tar.gz'',
       tap_name = Some ''tapvm1'',
       provider_response = Some (JObj [(''reply'', JStr ''ok'')]) \<rparr>"

text \<open>
  A host on which the Network Manager has attached \<open>vm1\<close> and the VM Manager has then
  created it.
\<close>

definition host_attached :: host where
  "host_attached = snd (setup_tap_interface run_ok cfg_ollama ''vm1'' None host0)"

definition host_created :: host where
  "host_created = snd (snd (create_vm cfg_ollama create_env_ok ''vm1'' (Some task_ok) host_attached))"

text \<open>Answers of the host for a \<open>stop_vm\<close> in which nothing fails.\<close>

definition unlink_ok :: "string \<Rightarrow> exn option" where
  "unlink_ok p = None"

definition stop_env_ok :: stop_env where
  "stop_env_ok = \<lparr> te_terminate = None, te_graceful = True, te_kill = None, te_unlink = unlink_ok \<rparr>"

definition host_stopped_once :: host where
  "host_stopped_once = snd (stop_vm stop_env_ok inst_vm1 host_created)"

definition host_stopped_twice :: host where
  "host_stopped_twice = snd (stop_vm stop_env_ok inst_vm1 host_stopped_once)"

text \<open>
  Answers for a \<open>start_vm\<close>: everything works (status 204); the control socket refuses
  the connection; the microVM answers 200; the launcher cannot spawn and the manifest
  cannot be written either.
\<close>

definition popen_ok :: "string list \<Rightarrow> exn + nat" where
  "popen_ok cmd = Inr 42"

definition popen_fails :: "string list \<Rightarrow> exn + nat" where
  "popen_fails cmd = Inl (FileNotFoundError ''launcher'')"

definition put_204 :: "string \<Rightarrow> exn + nat" where
  "put_204 url = Inr 204"

definition put_200 :: "string \<Rightarrow> exn + nat" where
  "put_200 url = Inr 200"

definition put_refused :: "string \<Rightarrow> exn + nat" where
  "put_refused url = Inl (ConnectionError ''refused'')"

definition start_env_ok :: start_env where
  "start_env_ok =
     \<lparr> se_write_config = None, se_which_jailer = None, se_popen = popen_ok,
       se_manifest_write = write_ok, se_http_put = put_204, se_now = ''2025-01-01T00:00:05Z'' \<rparr>"

definition start_env_refused :: start_env where
  "start_env_refused = start_env_ok\<lparr>se_http_put := put_refused\<rparr>"

definition start_env_200 :: start_env where
  "start_env_200 = start_env_ok\<lparr>se_http_put := put_200\<rparr>"

definition start_env_no_launch_no_write :: start_env where
  "start_env_no_launch_no_write =
     start_env_ok\<lparr>se_popen := popen_fails, se_manifest_write := write_fails\<rparr>"

text \<open>
  The instance and the host after a start of \<open>vm1\<close> in which everything works, and
  a stop during which the process may not be signalled.
\<close>

definition inst_running :: vm_instance where
  "inst_running = fst (snd (start_vm cfg_ollama start_env_ok inst_vm1 None host_created))"

definition host_running :: host where
  "host_running = snd (snd (start_vm cfg_ollama start_env_ok inst_vm1 None host_created))"

definition stop_env_denied :: stop_env where
  "stop_env_denied = stop_env_ok\<lparr>te_terminate := Some (OSError ''Operation not permitted'')\<rparr>"


section \<open>Resolution precedence\<close>




section \<open>The retry schedule\<close>

lemma posts_append: "posts (xs @ ys) = posts xs @ posts ys"
  by (induction xs rule: posts.induct) auto

lemma sleeps_append: "sleeps (xs @ ys) = sleeps xs @ sleeps ys"
  by (induction xs rule: sleeps.induct) auto

lemma posts_attempt_pairs:
  "posts (concat (map (\<lambda>i. [Post i, Sleep (f i)]) xs)) = xs"
  by (induction xs) auto

lemma sleeps_attempt_pairs:
  "sleeps (concat (map (\<lambda>i. [Post i, Sleep (f i)]) xs)) = map f xs"
  by (induction xs) auto












section \<open>What task-descriptor validation accepts\<close>

lemma validates_task_schema:
  "validates MCP_TASK_SCHEMA p \<longleftrightarrow>
     (\<exists>kvs. p = JObj kvs
        \<and> (\<exists>s. map_of kvs ''task_id'' = Some (JStr s))
        \<and> (\<exists>s. map_of kvs ''prompt'' = Some (JStr s))
        \<and> (map_of kvs ''provider'' = Some (JStr ''openai'')
             \<or> map_of kvs ''provider'' = Some (JStr ''ollama''))
        \<and> optional_fields_ok kvs)"
  apply (cases p)
  apply (simp_all add: MCP_TASK_SCHEMA_def optional_fields_ok_def)
  apply (auto split: option.splits json.splits)
  done

text \<open>
  C7, as the code has it. \<open>validate_mcp_request\<close> accepts exactly the objects in which
  \<open>task_id\<close>, \<open>prompt\<close> and \<open>provider\<close> are all present, \<open>task_id\<close> and \<open>prompt\<close> are
  strings, \<open>provider\<close> is \<open>"openai"\<close> or \<open>"ollama"\<close>, and \<open>model\<close>, \<open>timeout_seconds\<close> and
  \<open>env_overrides\<close>, when present, are a string, an integer and an object of strings.
  Everything else is rejected with a validation error.
\<close>

theorem validate_mcp_request_accepts_iff:
  "(validate_mcp_request p = Inr True \<longleftrightarrow>
      (\<exists>kvs. p = JObj kvs
         \<and> (\<exists>s. map_of kvs ''task_id'' = Some (JStr s))
         \<and> (\<exists>s. map_of kvs ''prompt'' = Some (JStr s))
         \<and> (map_of kvs ''provider'' = Some (JStr ''openai'')
              \<or> map_of kvs ''provider'' = Some (JStr ''ollama''))
         \<and> optional_fields_ok kvs))
   \<and> (validate_mcp_request p \<noteq> Inr True \<longrightarrow>
        validate_mcp_request p = Inl (ValidationError ''Invalid MCPTaskRequest''))"
  using validates_task_schema[of p] by (simp add: validate_mcp_request_def)

theorem validate_mcp_request_accepts_iff_witness:
  "validate_mcp_request task_ok = Inr True
   \<and> optional_fields_ok [(''task_id'', JStr ''t1''), (''prompt'', JStr ''hi''), (''provider'', JStr ''ollama'')]"
proof -
  have o: "optional_fields_ok
             [(''task_id'', JStr ''t1''), (''prompt'', JStr ''hi''), (''provider'', JStr ''ollama'')]"
    by (simp add: optional_fields_ok_def)
  then show ?thesis
    using validate_mcp_request_accepts_iff[of task_ok] by (simp add: task_ok_def)
qed

text \<open>
  A descriptor with \<open>task_id\<close> and \<open>prompt\<close> but no \<open>provider\<close> is rejected, and so are one
  that carries \<open>description\<close> in place of \<open>prompt\<close> and one whose \<open>model\<close> is a number.
\<close>

theorem validate_mcp_request_provider_required_counterexample:
  "validate_mcp_request task_no_provider = Inl (ValidationError ''Invalid MCPTaskRequest'')
   \<and> validate_mcp_request task_description_only = Inl (ValidationError ''Invalid MCPTaskRequest'')
   \<and> validate_mcp_request task_bad_model = Inl (ValidationError ''Invalid MCPTaskRequest'')"
  by (simp add: validate_mcp_request_def MCP_TASK_SCHEMA_def task_no_provider_def
        task_description_only_def task_bad_model_def)

section \<open>Where the CIDR is checked\<close>


lemma parse_10_0: "IPv4Network ''10.0.0.0/24'' = Inr \<lparr> network_address = 167772160, prefixlen = 24 \<rparr>"
  by code_simp











section \<open>Create: the manifest at \<open>pending\<close> and the provider's failure as data\<close>


lemma map_of_dict_set_other: "k' \<noteq> k \<Longrightarrow> map_of (dict_set k v kvs) k' = map_of kvs k'"
  by (induction kvs) auto









lemma valid_task_ok: "validate_mcp_request task_ok = Inr True"
  by (simp add: validate_mcp_request_def MCP_TASK_SCHEMA_def task_ok_def)









section \<open>Stop: what is released and what is left\<close>

lemma remove_file_caught:
  assumes "\<forall>p e. te_unlink env p = Some e \<longrightarrow> is_OSError e"
  shows "\<exists>f. remove_file env p h = (None, h\<lparr>fs := f\<rparr>)
             \<and> (\<forall>q. f q = (if q = p \<and> te_unlink env p = None then None else fs h q))"
proof (cases "fs h p = None")
  case True
  then have "remove_file env p h = (None, h\<lparr>fs := fs h\<rparr>)
             \<and> (\<forall>q. fs h q = (if q = p \<and> te_unlink env p = None then None else fs h q))"
    by (simp add: remove_file_def)
  then show ?thesis by blast
next
  case False
  then obtain c where c: "fs h p = Some c" by blast
  show ?thesis
  proof (cases "te_unlink env p")
    case None
    have r: "remove_file env p h = (None, h\<lparr>fs := (fs h)(p := None)\<rparr>)"
      unfolding remove_file_def c None by simp
    have "\<forall>q. ((fs h)(p := None)) q
               = (if q = p \<and> te_unlink env p = None then None else fs h q)"
      using None by simp
    with r show ?thesis by blast
  next
    case (Some e)
    then have o: "is_OSError e" using assms by blast
    have r: "remove_file env p h = (None, h\<lparr>fs := fs h\<rparr>)"
      unfolding remove_file_def c Some using o by simp
    have "\<forall>q. fs h q = (if q = p \<and> te_unlink env p = None then None else fs h q)"
      using Some by simp
    with r show ?thesis by blast
  qed
qed

lemma remove_optional_caught:
  assumes "\<forall>p e. te_unlink env p = Some e \<longrightarrow> is_OSError e"
  shows "\<exists>f. remove_optional env p h = (None, h\<lparr>fs := f\<rparr>)
             \<and> (\<forall>q. f q = (if q \<in> set_option p \<and> te_unlink env q = None then None else fs h q))"
proof (cases p)
  case None
  then have "remove_optional env p h = (None, h\<lparr>fs := fs h\<rparr>)
             \<and> (\<forall>q. fs h q = (if q \<in> set_option p \<and> te_unlink env q = None then None else fs h q))"
    by (simp add: remove_optional_def)
  then show ?thesis by blast
next
  case (Some x)
  from remove_file_caught[OF assms, of x h] obtain f where
    f: "remove_file env x h = (None, h\<lparr>fs := f\<rparr>)"
       "\<forall>q. f q = (if q = x \<and> te_unlink env x = None then None else fs h q)"
    by blast
  have "remove_optional env p h = (None, h\<lparr>fs := f\<rparr>)
        \<and> (\<forall>q. f q = (if q \<in> set_option p \<and> te_unlink env q = None then None else fs h q))"
    using Some f by (auto simp: remove_optional_def)
  then show ?thesis by blast
qed

lemma cleanup_vm_files_caught:
  assumes u: "\<forall>p e. te_unlink env p = Some e \<longrightarrow> is_OSError e"
  shows "\<exists>f. cleanup_vm_files env inst h = (None, h\<lparr>fs := f\<rparr>)
             \<and> (\<forall>q. f q = (if q \<in> cleanup_paths inst \<and> te_unlink env q = None
                             then None else fs h q))"
proof -
  from remove_optional_caught[OF u, of "socket_path inst" h] obtain f1 where
    f1: "remove_optional env (socket_path inst) h = (None, h\<lparr>fs := f1\<rparr>)"
        "\<forall>q. f1 q = (if q \<in> set_option (socket_path inst) \<and> te_unlink env q = None
                        then None else fs h q)"
    by blast
  from remove_optional_caught[OF u, of "shared_disk_path inst" "h\<lparr>fs := f1\<rparr>"] obtain f2 where
    f2: "remove_optional env (shared_disk_path inst) (h\<lparr>fs := f1\<rparr>) = (None, h\<lparr>fs := f2\<rparr>)"
        "\<forall>q. f2 q = (if q \<in> set_option (shared_disk_path inst) \<and> te_unlink env q = None
                        then None else f1 q)"
    by auto
  from remove_file_caught[OF u, of "vm_config_file (vm_id inst)" "h\<lparr>fs := f2\<rparr>"] obtain f3 where
    f3: "remove_file env (vm_config_file (vm_id inst)) (h\<lparr>fs := f2\<rparr>) = (None, h\<lparr>fs := f3\<rparr>)"
        "\<forall>q. f3 q = (if q = vm_config_file (vm_id inst)
                             \<and> te_unlink env (vm_config_file (vm_id inst)) = None
                        then None else f2 q)"
    by auto
  have c: "cleanup_vm_files env inst h = (None, h\<lparr>fs := f3\<rparr>)"
    using f1(1) f2(1) f3(1) by (simp add: cleanup_vm_files_def)
  have p: "\<forall>q. f3 q = (if q \<in> cleanup_paths inst \<and> te_unlink env q = None then None else fs h q)"
    using f1(2) f2(2) f3(2) by (auto simp: cleanup_paths_def)
  from c p show ?thesis by blast
qed

lemma terminate_process_caught:
  assumes "only_caught_errors env"
  shows "terminate_process env pid h = (None, h\<lparr>procs := procs h - {pid}\<rparr>)"
  using assms
  by (auto simp: terminate_process_def only_caught_errors_def split: option.splits)

text \<open>
  On a host that raises only what the handlers catch, \<open>stop_vm\<close> returns and changes
  exactly three things: the process is gone, the cleanup paths whose deletion succeeds
  are gone, and the instance is no longer registered.
\<close>

lemma stop_vm_caught:
  assumes "only_caught_errors env"
  shows "\<exists>f. stop_vm env inst h
               = (None,
                  h\<lparr>procs := (case process inst of None \<Rightarrow> procs h | Some pid \<Rightarrow> procs h - {pid}),
                    fs := f,
                    active_vms := (active_vms h)(vm_id inst := None)\<rparr>)
             \<and> (\<forall>q. f q = (if q \<in> cleanup_paths inst \<and> te_unlink env q = None
                             then None else fs h q))"
proof -
  from assms have u: "\<forall>p e. te_unlink env p = Some e \<longrightarrow> is_OSError e"
    by (simp add: only_caught_errors_def)
  define h1 where "h1 = h\<lparr>procs := (case process inst of None \<Rightarrow> procs h | Some pid \<Rightarrow> procs h - {pid})\<rparr>"
  have t: "terminate_if_alive env inst h = (None, h1)"
    by (auto simp: terminate_if_alive_def h1_def terminate_process_caught[OF assms]
             split: option.splits)
  from cleanup_vm_files_caught[OF u, of inst h1] obtain f where
    f: "cleanup_vm_files env inst h1 = (None, h1\<lparr>fs := f\<rparr>)"
       "\<forall>q. f q = (if q \<in> cleanup_paths inst \<and> te_unlink env q = None then None else fs h1 q)"
    by blast
  have s: "stop_vm env inst h
             = (None,
                h\<lparr>procs := (case process inst of None \<Rightarrow> procs h | Some pid \<Rightarrow> procs h - {pid}),
                  fs := f,
                  active_vms := (active_vms h)(vm_id inst := None)\<rparr>)"
    unfolding stop_vm_def t using f(1) by (simp add: h1_def)
  have p: "\<forall>q. f q = (if q \<in> cleanup_paths inst \<and> te_unlink env q = None then None else fs h q)"
    using f(2) by (simp add: h1_def)
  from s p show ?thesis by blast
qed

lemma stop_vm_caught_props:
  assumes "only_caught_errors env"
  shows "fst (stop_vm env inst h) = None"
    and "active_vms (snd (stop_vm env inst h)) = (active_vms h)(vm_id inst := None)"
    and "fs (snd (stop_vm env inst h)) q
           = (if q \<in> cleanup_paths inst \<and> te_unlink env q = None then None else fs h q)"
    and "active_interfaces (snd (stop_vm env inst h)) = active_interfaces h"
    and "taps (snd (stop_vm env inst h)) = taps h"
  using stop_vm_caught[OF assms, of inst h] by auto

text \<open>
  C4, as the code has it. On a host that raises only what the handlers catch, calling
  \<open>stop_vm\<close> twice in a row never raises. After each call the instance is not
  registered; the file system differs from before exactly in that the socket path, the
  path the \<open>shared_disk_path\<close> field names and the boot-configuration path are gone
  where their deletion succeeded; and the Network Manager's registry and the TAP
  interfaces are what they were before.
\<close>

theorem stop_vm_twice:
  "only_caught_errors e1 \<and> only_caught_errors e2
   \<longrightarrow> fst (stop_vm e1 inst h) = None
       \<and> fst (stop_vm e2 inst (snd (stop_vm e1 inst h))) = None
       \<and> active_vms (snd (stop_vm e1 inst h)) (vm_id inst) = None
       \<and> active_vms (snd (stop_vm e2 inst (snd (stop_vm e1 inst h)))) (vm_id inst) = None
       \<and> (\<forall>q. fs (snd (stop_vm e1 inst h)) q
               = (if q \<in> cleanup_paths inst \<and> te_unlink e1 q = None then None else fs h q))
       \<and> (\<forall>q. fs (snd (stop_vm e2 inst (snd (stop_vm e1 inst h)))) q
               = (if q \<in> cleanup_paths inst \<and> te_unlink e2 q = None then None
                  else fs (snd (stop_vm e1 inst h)) q))
       \<and> active_interfaces (snd (stop_vm e1 inst h)) = active_interfaces h
       \<and> active_interfaces (snd (stop_vm e2 inst (snd (stop_vm e1 inst h)))) = active_interfaces h
       \<and> taps (snd (stop_vm e2 inst (snd (stop_vm e1 inst h)))) = taps h"
  by (simp add: stop_vm_caught_props)

lemma stop_env_ok_caught: "only_caught_errors stop_env_ok"
  by (simp add: only_caught_errors_def stop_env_ok_def unlink_ok_def)

lemma provider_step_vm1:
  "call_provider_step cfg_ollama create_env_ok (Some task_ok)
     = Inr (Some (JObj [(''task_id'', JStr ''t1''), (''prompt'', JStr ''hi''),
                        (''provider'', JStr ''ollama''), (''env_overrides'', JObj []),
                        (''provider_response'', JObj [(''reply'', JStr ''ok'')])]))"
  using valid_task_ok
  by (simp add: call_provider_step_def task_ok_def provider_answer_def create_env_ok_def
        provider_replies_def Let_def)

lemma created_vm1:
  "fst (create_vm cfg_ollama create_env_ok ''vm1'' (Some task_ok) host_attached) = Inr inst_vm1"
  using provider_step_vm1
  by (simp add: create_vm_def create_shared_disk_def create_env_ok_def disk_ok_def Let_def
        prepare_guest_artifacts_def create_guest_tar_def create_init_overlay_def
        task_provider_response_def generate_vm_config_def inst_vm1_def cfg_ollama_def
        socket_file_def shared_disk_file_def guest_tar_file_def init_img_file_def
        results_dir_def path_join_def split: prod.splits)

lemma host_created_vm1:
  "active_interfaces host_created = active_interfaces host_attached
   \<and> fs host_created ''/tmp/shared-vm1.ext4'' = Some Blob
   \<and> fs host_created ''/tmp/firecracker-results/vm1/guest.tar.gz'' = Some Blob
   \<and> manifest_state cfg_ollama ''vm1'' host_created = Some ''pending''
   \<and> events host_created = events host_attached @ [ManifestWritten ''vm1'' ''pending'']
   \<and> active_vms host_created ''vm1'' = Some inst_vm1"
  using provider_step_vm1 created_vm1
  by (simp add: host_created_def create_vm_def create_shared_disk_def create_env_ok_def
        disk_ok_def write_ok_def Let_def prepare_guest_artifacts_def create_guest_tar_def
        create_init_overlay_def write_manifest_def manifest_state_def cfg_ollama_def
        shared_disk_file_def guest_tar_file_def init_img_file_def manifest_file_def
        results_dir_def path_join_def split: prod.splits)

lemma host_attached_vm1:
  "active_interfaces host_attached ''vm1''
     = Some \<lparr> if_tap_name = ''tapvm1'', if_cidr = ''10.0.0.0/24'',
              if_gateway_ip = ''10.0.0.1'', if_vm_ip = ''10.0.0.2'' \<rparr>
   \<and> events host_attached = []"
proof -
  have gw: "str_address 167772161 = ''10.0.0.1''" and vm: "str_address 167772162 = ''10.0.0.2''"
    by code_simp+
  show ?thesis
    by (simp add: host_attached_def setup_tap_interface_def cfg_ollama_def parse_10_0
          address_add_def ALL_ONES_def run_ok_def issue_def Let_def host0_def gw vm)
qed

theorem stop_vm_twice_witness:
  "only_caught_errors stop_env_ok
   \<and> fst (stop_vm stop_env_ok inst_vm1 host_created) = None
   \<and> fst (stop_vm stop_env_ok inst_vm1 host_stopped_once) = None
   \<and> active_vms host_stopped_twice ''vm1'' = None
   \<and> fs host_stopped_twice ''/tmp/firecracker-results/vm1/guest.tar.gz'' = None"
proof -
  have p: "''/tmp/firecracker-results/vm1/guest.tar.gz'' \<in> cleanup_paths inst_vm1"
    by (simp add: cleanup_paths_def inst_vm1_def)
  have i: "vm_id inst_vm1 = ''vm1''" by (simp add: inst_vm1_def)
  note t = stop_vm_twice[of stop_env_ok stop_env_ok inst_vm1 host_created, rule_format,
             OF conjI[OF stop_env_ok_caught stop_env_ok_caught],
             folded host_stopped_once_def, folded host_stopped_twice_def]
  from t have a: "fst (stop_vm stop_env_ok inst_vm1 host_created) = None"
    and b: "fst (stop_vm stop_env_ok inst_vm1 host_stopped_once) = None"
    and c: "active_vms host_stopped_twice (vm_id inst_vm1) = None"
    and d: "\<forall>q. fs host_stopped_twice q
               = (if q \<in> cleanup_paths inst_vm1 \<and> te_unlink stop_env_ok q = None then None
                  else fs host_stopped_once q)"
    by simp_all
  have u: "te_unlink stop_env_ok ''/tmp/firecracker-results/vm1/guest.tar.gz'' = None"
    by (simp add: stop_env_ok_def unlink_ok_def)
  from d p u have e: "fs host_stopped_twice ''/tmp/firecracker-results/vm1/guest.tar.gz'' = None"
    by simp
  show ?thesis using stop_env_ok_caught a b c e i by simp
qed

section \<open>What the instance's \<open>shared_disk_path\<close> names after create\<close>






















section \<open>Start: the order of the manifest writes and the control-plane requests\<close>

lemma write_manifest_pair:
  "write_manifest cfg io now inst st h
     = (io st,
        if io st = None
        then h\<lparr>fs := (fs h)(manifest_file cfg (vm_id inst) \<mapsto> ManifestDoc
                   \<lparr> m_vm_id = vm_id inst, m_image = path_name (paths_ubuntu_images cfg),
                     m_memory_mb = vm_memory_mb cfg, m_vcpus = vm_vcpus cfg,
                     m_network_mode = ''slirp'', m_created_at = now, m_state = st,
                     m_provider_response = manifest_provider inst \<rparr>),
               events := events h @ [ManifestWritten (vm_id inst) st]\<rparr>
        else h)"
  by (auto simp: write_manifest_def Let_def split: option.splits)

text \<open>The handler's effect on what a start is observed by.\<close>

lemma start_failed_props:
  "fst (start_failed cfg env e inst h) = Inl e"
  "active_interfaces (snd (snd (start_failed cfg env e inst h))) = active_interfaces h"
  "taps (snd (snd (start_failed cfg env e inst h))) = taps h"
  "se_manifest_write env ''failed'' = None \<Longrightarrow>
     manifest_state cfg (vm_id inst) (snd (snd (start_failed cfg env e inst h))) = Some ''failed''"
  "se_manifest_write env ''failed'' = None \<Longrightarrow>
     events (snd (snd (start_failed cfg env e inst h))) = events h @ [ManifestWritten (vm_id inst) ''failed'']"
  "se_manifest_write env ''failed'' \<noteq> None \<Longrightarrow>
     events (snd (snd (start_failed cfg env e inst h))) = events h"
  by (auto simp: start_failed_def write_manifest_pair manifest_state_def)

lemma start_launcher_props:
  "active_interfaces (snd (start_launcher env v c r j x h)) = active_interfaces h"
  "taps (snd (start_launcher env v c r j x h)) = taps h"
  "events (snd (start_launcher env v c r j x h))
     = events h @ (case se_popen env (launcher_cmd env v c j x h) of
                     Inl e \<Rightarrow> [] | Inr pid \<Rightarrow> [Launched (launcher_cmd env v c j x h) pid])"
  "fst (start_launcher env v c r j x h) = se_popen env (launcher_cmd env v c j x h)"
  by (auto simp: start_launcher_def Let_def split: sum.splits)

lemma put_json_props:
  "active_interfaces (snd (put_json env sock p h)) = active_interfaces h"
  "taps (snd (put_json env sock p h)) = taps h"
  "fs (snd (put_json env sock p h)) = fs h"
  "events (snd (put_json env sock p h)) = events h @ [Put p (se_http_put env (unix_socket_url sock p))]"
  "fst (put_json env sock p h) = put_outcome (se_http_put env (unix_socket_url sock p))"
  by (simp_all add: put_json_def Let_def)


lemma write_manifest_props:
  "fst (write_manifest cfg io now inst st h) = io st"
  "active_interfaces (snd (write_manifest cfg io now inst st h)) = active_interfaces h"
  "taps (snd (write_manifest cfg io now inst st h)) = taps h"
  "events (snd (write_manifest cfg io now inst st h))
     = events h @ (if io st = None then [ManifestWritten (vm_id inst) st] else [])"
  "io st = None \<Longrightarrow> manifest_state cfg (vm_id inst) (snd (write_manifest cfg io now inst st h)) = Some st"
  by (auto simp: write_manifest_pair manifest_state_def)

lemma start_try_net:
  "active_interfaces (snd (snd (start_try cfg env inst h))) = active_interfaces h
   \<and> taps (snd (snd (start_try cfg env inst h))) = taps h"
  by (simp add: start_try_def case_prod_beta Let_def start_failed_props start_launcher_props
        put_json_props write_manifest_props split: option.splits sum.splits)

lemma sync_registry_props:
  "active_interfaces (sync_registry a b h) = active_interfaces h"
  "taps (sync_registry a b h) = taps h"
  "events (sync_registry a b h) = events h"
  "fs (sync_registry a b h) = fs h"
  "manifest_state cfg v (sync_registry a b h) = manifest_state cfg v h"
  by (simp_all add: sync_registry_def manifest_state_def)

lemma before_try_props:
  "vm_id (with_api_key inst key) = vm_id inst"
  "events (stale_socket_removed i (config_written i h)) = events h"
  "active_interfaces (stale_socket_removed i (config_written i h)) = active_interfaces h"
  "taps (stale_socket_removed i (config_written i h)) = taps h"
  by (simp_all add: with_api_key_def stale_socket_removed_def config_written_def
        split: option.splits)

lemma start_vm_net:
  "active_interfaces (snd (snd (start_vm cfg env inst key h))) = active_interfaces h
   \<and> taps (snd (snd (start_vm cfg env inst key h))) = taps h"
  by (simp add: start_vm_def case_prod_beta Let_def sync_registry_props start_try_net
        before_try_props split: option.splits)


lemma put_json_manifest:
  "manifest_state cfg v (snd (put_json env sock p h)) = manifest_state cfg v h"
  by (simp add: manifest_state_def put_json_props)


lemma start_failed_events:
  "events (snd (snd (start_failed cfg env e inst h)))
     = events h @ (if se_manifest_write env ''failed'' = None
                   then [ManifestWritten (vm_id inst) ''failed''] else [])"
  by (simp add: start_failed_def write_manifest_props)

text \<open>
  Every run of the \<open>try\<close> block ends in the handler, after one of four prefixes of the
  block's events, or returns after all four.
\<close>

lemma start_try_cases:
  obtains (failed) e inst' h0 xs where
      "start_try cfg env inst h = start_failed cfg env e inst' h0"
      "vm_id inst' = vm_id inst" "events h0 = events h @ xs"
      "xs = [] \<or> (\<exists>cmd pid. xs = [Launched cmd pid])
         \<or> (\<exists>cmd pid a1. xs = [Launched cmd pid, ManifestWritten (vm_id inst) ''running'',
                                  Put ''/boot-source'' a1])
         \<or> (\<exists>cmd pid a1 a2. xs = [Launched cmd pid, ManifestWritten (vm_id inst) ''running'',
                                     Put ''/boot-source'' a1, Put ''/machine-config'' a2])"
    | (returned) pid cmd s1 s2 h4 where
      "start_try cfg env inst h = (Inr pid, inst\<lparr>process := Some pid\<rparr>, h4)"
      "events h4 = events h @ [Launched cmd pid, ManifestWritten (vm_id inst) ''running'',
                               Put ''/boot-source'' (Inr s1), Put ''/machine-config'' (Inr s2)]"
      "\<not> (400 \<le> s1 \<and> s1 < 600)" "\<not> (400 \<le> s2 \<and> s2 < 600)"
      "manifest_state cfg (vm_id inst) h4 = Some ''running''"
proof (cases "vm_cfg inst")
  case None
  then have "start_try cfg env inst h
               = start_failed cfg env (TypeError ''NoneType object is not subscriptable'') inst h"
    by (simp add: start_try_def)
  then show ?thesis using failed[of _ inst h "[]"] by simp
next
  case (Some c)
  define cmd where "cmd = launcher_cmd env (vm_id inst) (vm_config_file (vm_id inst))
                            (vm_use_jailer cfg) [kernel_image_path c, rootfs_path c] h"
  define hL where "hL = snd (start_launcher env (vm_id inst) (vm_config_file (vm_id inst))
                               (paths_results cfg) (vm_use_jailer cfg)
                               [kernel_image_path c, rootfs_path c] h)"
  have fL: "fst (start_launcher env (vm_id inst) (vm_config_file (vm_id inst))
                   (paths_results cfg) (vm_use_jailer cfg)
                   [kernel_image_path c, rootfs_path c] h) = se_popen env cmd"
    by (simp add: start_launcher_props cmd_def)
  show ?thesis
  proof (cases "se_popen env cmd")
    case (Inl e)
    have t: "start_try cfg env inst h = start_failed cfg env e inst hL"
      using Some Inl fL by (simp add: start_try_def case_prod_beta hL_def)
    have ev: "events hL = events h @ []"
      using Inl by (simp add: hL_def start_launcher_props cmd_def[symmetric])
    show ?thesis using failed[OF t _ ev] by simp
  next
    case (Inr pid)
    define inst1 where "inst1 = inst\<lparr>process := Some pid\<rparr>"
    define hW where "hW = snd (write_manifest cfg (se_manifest_write env) (se_now env) inst1
                                 ''running'' hL)"
    have id1: "vm_id inst1 = vm_id inst" by (simp add: inst1_def)
    have evL: "events hL = events h @ [Launched cmd pid]"
      using Inr by (simp add: hL_def start_launcher_props cmd_def[symmetric])
    show ?thesis
    proof (cases "se_manifest_write env ''running''")
      case (Some e)
      have t: "start_try cfg env inst h = start_failed cfg env e inst1 hW"
        using \<open>vm_cfg inst = Some c\<close> Inr fL Some
        by (simp add: start_try_def case_prod_beta Let_def write_manifest_props hL_def hW_def inst1_def)
      have ev: "events hW = events h @ [Launched cmd pid]"
        using Some evL by (simp add: hW_def write_manifest_props)
      show ?thesis using failed[OF t id1 ev] by blast
    next
      case None
      define sock where "sock = (case socket_path inst1 of None \<Rightarrow> ''None'' | Some p \<Rightarrow> p)"
      define a1 where "a1 = se_http_put env (unix_socket_url sock ''/boot-source'')"
      define a2 where "a2 = se_http_put env (unix_socket_url sock ''/machine-config'')"
      define h3 where "h3 = snd (put_json env sock ''/boot-source'' hW)"
      define h4 where "h4 = snd (put_json env sock ''/machine-config'' h3)"
      have evW: "events hW = events h @ [Launched cmd pid, ManifestWritten (vm_id inst) ''running'']"
        using None evL by (simp add: hW_def write_manifest_props id1)
      have ev3: "events h3 = events h @ [Launched cmd pid, ManifestWritten (vm_id inst) ''running'',
                                         Put ''/boot-source'' a1]"
        using evW by (simp add: h3_def put_json_props a1_def)
      have ev4: "events h4 = events h @ [Launched cmd pid, ManifestWritten (vm_id inst) ''running'',
                                         Put ''/boot-source'' a1, Put ''/machine-config'' a2]"
        using ev3 by (simp add: h4_def put_json_props a2_def)
      have mW: "manifest_state cfg (vm_id inst) hW = Some ''running''"
        using None write_manifest_props(5)[of "se_manifest_write env" "''running''" cfg inst1 "se_now env" hL]
        by (simp add: hW_def id1)
      have m4: "manifest_state cfg (vm_id inst) h4 = Some ''running''"
        using mW by (simp add: h4_def h3_def put_json_manifest)
      have base: "start_try cfg env inst h
                    = (case put_outcome a1 of
                         Inl e \<Rightarrow> start_failed cfg env e inst1 h3
                       | Inr b1 \<Rightarrow>
                           (case put_outcome a2 of
                              Inl e \<Rightarrow> start_failed cfg env e inst1 h4
                            | Inr b2 \<Rightarrow> (Inr pid, inst1, h4)))"
        using \<open>vm_cfg inst = Some c\<close> Inr fL None
        by (simp add: start_try_def case_prod_beta Let_def write_manifest_props put_json_props
              hL_def hW_def inst1_def sock_def a1_def a2_def h3_def h4_def
              split: sum.splits)
      show ?thesis
      proof (cases "put_outcome a1")
        case (Inl e)
        then have t: "start_try cfg env inst h = start_failed cfg env e inst1 h3"
          using base by simp
        show ?thesis using failed[OF t id1 ev3] by blast
      next
        case b1: (Inr b1)
        show ?thesis
        proof (cases "put_outcome a2")
          case (Inl e)
          then have t: "start_try cfg env inst h = start_failed cfg env e inst1 h4"
            using base b1 by simp
          show ?thesis using failed[OF t id1 ev4] by blast
        next
          case b2: (Inr b2)
          then have t: "start_try cfg env inst h = (Inr pid, inst\<lparr>process := Some pid\<rparr>, h4)"
            using base b1 by (simp add: inst1_def)
          from b1 obtain s1 where s1: "a1 = Inr s1" "\<not> (400 \<le> s1 \<and> s1 < 600)"
            by (cases a1) (auto simp: put_outcome_def split: if_splits)
          from b2 obtain s2 where s2: "a2 = Inr s2" "\<not> (400 \<le> s2 \<and> s2 < 600)"
            by (cases a2) (auto simp: put_outcome_def split: if_splits)
          show ?thesis
            using returned[OF t _ s1(2) s2(2) m4] ev4 s1(1) s2(1) by simp
        qed
      qed
    qed
  qed
qed


text \<open>What the \<open>try\<close> block guarantees, whichever way it ends.\<close>

lemma start_try_summary:
  "puts_after_running (vm_id inst) False (new_events h (snd (snd (start_try cfg env inst h))))
   \<and> (isl (fst (start_try cfg env inst h)) \<and> se_manifest_write env ''failed'' = None \<longrightarrow>
        manifest_state cfg (vm_id inst) (snd (snd (start_try cfg env inst h))) = Some ''failed''
        \<and> events (snd (snd (start_try cfg env inst h))) \<noteq> []
        \<and> last (events (snd (snd (start_try cfg env inst h)))) = ManifestWritten (vm_id inst) ''failed'')
   \<and> (\<forall>pid. fst (start_try cfg env inst h) = Inr pid \<longrightarrow>
        manifest_state cfg (vm_id inst) (snd (snd (start_try cfg env inst h))) = Some ''running''
        \<and> (\<exists>cmd s1 s2.
              new_events h (snd (snd (start_try cfg env inst h)))
                = [Launched cmd pid, ManifestWritten (vm_id inst) ''running'',
                   Put ''/boot-source'' (Inr s1), Put ''/machine-config'' (Inr s2)]
              \<and> \<not> (400 \<le> s1 \<and> s1 < 600) \<and> \<not> (400 \<le> s2 \<and> s2 < 600)))"
proof (cases rule: start_try_cases[of cfg env inst h])
  case (failed e inst' h0 xs)
  have ev: "events (snd (snd (start_try cfg env inst h)))
              = events h @ xs @ (if se_manifest_write env ''failed'' = None
                                 then [ManifestWritten (vm_id inst) ''failed''] else [])"
    using failed(1,2,3) by (simp add: start_failed_events)
  have ne: "new_events h (snd (snd (start_try cfg env inst h)))
              = xs @ (if se_manifest_write env ''failed'' = None
                      then [ManifestWritten (vm_id inst) ''failed''] else [])"
    using ev by (simp add: new_events_def)
  have ord: "puts_after_running (vm_id inst) False (new_events h (snd (snd (start_try cfg env inst h))))"
    unfolding ne using failed(4) by auto
  have isl: "isl (fst (start_try cfg env inst h))"
    using failed(1) by (simp add: start_failed_props)
  have mf: "se_manifest_write env ''failed'' = None \<longrightarrow>
        manifest_state cfg (vm_id inst) (snd (snd (start_try cfg env inst h))) = Some ''failed''
        \<and> events (snd (snd (start_try cfg env inst h))) \<noteq> []
        \<and> last (events (snd (snd (start_try cfg env inst h)))) = ManifestWritten (vm_id inst) ''failed''"
    using failed(1,2) ev start_failed_props(4)[of env cfg inst' e h0] by simp
  show ?thesis using ord isl mf by auto
next
  case (returned pid cmd s1 s2 h4)
  have ne: "new_events h (snd (snd (start_try cfg env inst h)))
              = [Launched cmd pid, ManifestWritten (vm_id inst) ''running'',
                 Put ''/boot-source'' (Inr s1), Put ''/machine-config'' (Inr s2)]"
    using returned(1,2) by (simp add: new_events_def)
  show ?thesis
    unfolding ne using returned(1,3,4,5) by simp
qed

lemma start_vm_outside_try:
  assumes "\<not> (se_write_config env = None
              \<and> \<not> ((case key of None \<Rightarrow> False | Some k \<Rightarrow> k \<noteq> []) \<and> vm_cfg inst = None))"
  shows "isl (fst (start_vm cfg env inst key h))
         \<and> events (snd (snd (start_vm cfg env inst key h))) = events h"
  using assms
  by (auto simp: start_vm_def Let_def sync_registry_props split: option.splits)

lemma start_vm_inside_try:
  assumes "se_write_config env = None"
    and "\<not> ((case key of None \<Rightarrow> False | Some k \<Rightarrow> k \<noteq> []) \<and> vm_cfg inst = None)"
  shows "start_vm cfg env inst key h
           = (fst (start_try cfg env (with_api_key inst key)
                     (stale_socket_removed (with_api_key inst key)
                        (config_written (with_api_key inst key) h))),
              fst (snd (start_try cfg env (with_api_key inst key)
                     (stale_socket_removed (with_api_key inst key)
                        (config_written (with_api_key inst key) h)))),
              sync_registry inst
                (fst (snd (start_try cfg env (with_api_key inst key)
                     (stale_socket_removed (with_api_key inst key)
                        (config_written (with_api_key inst key) h)))))
                (snd (snd (start_try cfg env (with_api_key inst key)
                     (stale_socket_removed (with_api_key inst key)
                        (config_written (with_api_key inst key) h))))))"
proof -
  from assms(2) have c: "((case key of None \<Rightarrow> False | Some k \<Rightarrow> k \<noteq> []) \<and> vm_cfg inst = None) = False"
    by simp
  show ?thesis
    unfolding start_vm_def c using assms(1) by (simp add: Let_def case_prod_beta)
qed

lemma start_vm_summary:
  "puts_after_running (vm_id inst) False (new_events h (snd (snd (start_vm cfg env inst key h))))
   \<and> (raised_in_try env inst key (fst (start_vm cfg env inst key h))
        \<and> se_manifest_write env ''failed'' = None \<longrightarrow>
        manifest_state cfg (vm_id inst) (snd (snd (start_vm cfg env inst key h))) = Some ''failed''
        \<and> events (snd (snd (start_vm cfg env inst key h))) \<noteq> []
        \<and> last (events (snd (snd (start_vm cfg env inst key h)))) = ManifestWritten (vm_id inst) ''failed'')
   \<and> (\<forall>pid. fst (start_vm cfg env inst key h) = Inr pid \<longrightarrow>
        manifest_state cfg (vm_id inst) (snd (snd (start_vm cfg env inst key h))) = Some ''running''
        \<and> (\<exists>cmd s1 s2.
              new_events h (snd (snd (start_vm cfg env inst key h)))
                = [Launched cmd pid, ManifestWritten (vm_id inst) ''running'',
                   Put ''/boot-source'' (Inr s1), Put ''/machine-config'' (Inr s2)]
              \<and> \<not> (400 \<le> s1 \<and> s1 < 600) \<and> \<not> (400 \<le> s2 \<and> s2 < 600)))"
proof (cases "se_write_config env = None
              \<and> \<not> ((case key of None \<Rightarrow> False | Some k \<Rightarrow> k \<noteq> []) \<and> vm_cfg inst = None)")
  case False
  from start_vm_outside_try[OF False, of cfg h]
  have i: "isl (fst (start_vm cfg env inst key h))"
    and e: "events (snd (snd (start_vm cfg env inst key h))) = events h" by simp_all
  have n: "new_events h (snd (snd (start_vm cfg env inst key h))) = []"
    using e by (simp add: new_events_def)
  have r: "\<not> raised_in_try env inst key (fst (start_vm cfg env inst key h))"
    using False by (auto simp: raised_in_try_def)
  have np: "\<And>pid. fst (start_vm cfg env inst key h) \<noteq> Inr pid" using i by auto
  show ?thesis using n r np by simp
next
  case True
  let ?i = "with_api_key inst key"
  let ?h = "stale_socket_removed ?i (config_written ?i h)"
  from True have w: "se_write_config env = None"
    and k: "\<not> ((case key of None \<Rightarrow> False | Some k \<Rightarrow> k \<noteq> []) \<and> vm_cfg inst = None)" by simp_all
  note eq = start_vm_inside_try[OF w k, of cfg h]
  have f: "fst (start_vm cfg env inst key h) = fst (start_try cfg env ?i ?h)"
    and ev: "events (snd (snd (start_vm cfg env inst key h))) = events (snd (snd (start_try cfg env ?i ?h)))"
    and ms: "manifest_state cfg (vm_id inst) (snd (snd (start_vm cfg env inst key h)))
               = manifest_state cfg (vm_id inst) (snd (snd (start_try cfg env ?i ?h)))"
    by (simp_all add: eq sync_registry_props)
  have ne: "new_events h (snd (snd (start_vm cfg env inst key h)))
              = new_events ?h (snd (snd (start_try cfg env ?i ?h)))"
    using ev by (simp add: new_events_def before_try_props)
  have ri: "raised_in_try env inst key (fst (start_try cfg env ?i ?h))
              = isl (fst (start_try cfg env ?i ?h))"
    using True by (simp add: raised_in_try_def)
  show ?thesis
    unfolding ne ms ev f ri
    using start_try_summary[of ?i ?h cfg env] by (simp add: before_try_props)
qed

text \<open>
  C1, as the code has it. A start never changes the Network Manager's registry or the
  TAP interfaces: an attachment is there after the call exactly when it was there
  before. When the start raises from inside its \<open>try\<close> block (launcher, manifest write
  or control-plane request) and the manifest can be written, the write of \<open>failed\<close> is
  the last thing that happens before the exception reaches the caller, and the
  manifest is at \<open>failed\<close>.
\<close>

theorem start_vm_failure_marks_failed:
  "active_interfaces (snd (snd (start_vm cfg env inst key h))) = active_interfaces h
   \<and> taps (snd (snd (start_vm cfg env inst key h))) = taps h
   \<and> (raised_in_try env inst key (fst (start_vm cfg env inst key h))
        \<and> se_manifest_write env ''failed'' = None \<longrightarrow>
        manifest_state cfg (vm_id inst) (snd (snd (start_vm cfg env inst key h))) = Some ''failed''
        \<and> events (snd (snd (start_vm cfg env inst key h))) \<noteq> []
        \<and> last (events (snd (snd (start_vm cfg env inst key h)))) = ManifestWritten (vm_id inst) ''failed'')"
  using start_vm_net[of cfg env inst key h] start_vm_summary[of inst h cfg env key] by simp

text \<open>
  C2, as the code has it. In every start, each control-plane request comes after the
  manifest write to \<open>running\<close>, which directly follows the launch. A start that returns
  has launched the process, written \<open>running\<close> and then sent both requests, neither
  answered with an error status, and leaves the manifest at \<open>running\<close>; a start that
  raises from inside its \<open>try\<close> block leaves the manifest at \<open>failed\<close> when that write
  succeeds.
\<close>

theorem start_vm_running_written_before_config:
  "puts_after_running (vm_id inst) False (new_events h (snd (snd (start_vm cfg env inst key h))))
   \<and> (\<forall>pid. fst (start_vm cfg env inst key h) = Inr pid \<longrightarrow>
        manifest_state cfg (vm_id inst) (snd (snd (start_vm cfg env inst key h))) = Some ''running''
        \<and> (\<exists>cmd s1 s2.
              new_events h (snd (snd (start_vm cfg env inst key h)))
                = [Launched cmd pid, ManifestWritten (vm_id inst) ''running'',
                   Put ''/boot-source'' (Inr s1), Put ''/machine-config'' (Inr s2)]
              \<and> \<not> (400 \<le> s1 \<and> s1 < 600) \<and> \<not> (400 \<le> s2 \<and> s2 < 600)))
   \<and> (raised_in_try env inst key (fst (start_vm cfg env inst key h))
        \<and> se_manifest_write env ''failed'' = None \<longrightarrow>
        manifest_state cfg (vm_id inst) (snd (snd (start_vm cfg env inst key h))) = Some ''failed'')"
  using start_vm_summary[of inst h cfg env key] by simp

lemma host_created_no_launcher: "fs host_created dev_launcher = None"
  using provider_step_vm1
  by (simp add: host_created_def create_vm_def create_shared_disk_def create_env_ok_def
        disk_ok_def write_ok_def Let_def prepare_guest_artifacts_def create_guest_tar_def
        create_init_overlay_def write_manifest_def cfg_ollama_def
        shared_disk_file_def guest_tar_file_def init_img_file_def manifest_file_def
        results_dir_def path_join_def dev_launcher_def host_attached_def
        setup_tap_interface_def parse_10_0 address_add_def ALL_ONES_def run_ok_def issue_def
        host0_def split: prod.splits)

lemma start_try_vm1_cmd:
  "launcher_cmd env ''vm1'' c False x
     (stale_socket_removed inst_vm1 (config_written inst_vm1 host_created)) = [''/bin/sleep'', ''60'']"
  using host_created_no_launcher
  by (simp add: launcher_cmd_def stale_socket_removed_def config_written_def inst_vm1_def
        dev_launcher_def vm_config_file_def)


text \<open>Four runs of \<open>start_vm\<close> on the host where \<open>vm1\<close> was attached and created.\<close>

lemma start_vm1_unfold:
  assumes "se_write_config env = None"
  shows "start_vm cfg_ollama env inst_vm1 None host_created
           = (fst (start_try cfg_ollama env inst_vm1
                     (stale_socket_removed inst_vm1 (config_written inst_vm1 host_created))),
              fst (snd (start_try cfg_ollama env inst_vm1
                     (stale_socket_removed inst_vm1 (config_written inst_vm1 host_created)))),
              sync_registry inst_vm1
                (fst (snd (start_try cfg_ollama env inst_vm1
                     (stale_socket_removed inst_vm1 (config_written inst_vm1 host_created)))))
                (snd (snd (start_try cfg_ollama env inst_vm1
                     (stale_socket_removed inst_vm1 (config_written inst_vm1 host_created))))))"
proof -
  have k: "\<not> ((case None :: string option of None \<Rightarrow> False | Some k \<Rightarrow> k \<noteq> [])
              \<and> vm_cfg inst_vm1 = None)"
    by simp
  have i: "with_api_key inst_vm1 None = inst_vm1" by (simp add: with_api_key_def)
  show ?thesis using start_vm_inside_try[OF assms k, of cfg_ollama host_created] by (simp add: i)
qed

lemma start_refused_vm1:
  "fst (start_vm cfg_ollama start_env_refused inst_vm1 None host_created)
     = Inl (ConnectionError ''refused'')
   \<and> new_events host_created (snd (snd (start_vm cfg_ollama start_env_refused inst_vm1 None host_created)))
     = [Launched [''/bin/sleep'', ''60''] 42, ManifestWritten ''vm1'' ''running'',
        Put ''/boot-source'' (Inl (ConnectionError ''refused'')), ManifestWritten ''vm1'' ''failed'']"
proof -
  have w: "se_write_config start_env_refused = None"
    by (simp add: start_env_refused_def start_env_ok_def)
  have j: "vm_use_jailer cfg_ollama = False" by (simp add: cfg_ollama_def)
  have v: "vm_id inst_vm1 = ''vm1''" by (simp add: inst_vm1_def)
  have sp: "socket_path inst_vm1 = Some ''/tmp/firecracker-vm1.socket''" by (simp add: inst_vm1_def)
  obtain c where c: "vm_cfg inst_vm1 = Some c" by (simp add: inst_vm1_def)
  show ?thesis
    unfolding start_vm1_unfold[OF w]
    by (simp add: start_try_def case_prod_beta Let_def start_failed_events sync_registry_props
          start_failed_props start_launcher_props put_json_props write_manifest_props
          new_events_def before_try_props j v c sp start_try_vm1_cmd
          start_env_refused_def start_env_ok_def popen_ok_def write_ok_def put_refused_def
          put_outcome_def)
qed

lemma start_ok_vm1:
  "fst (start_vm cfg_ollama start_env_ok inst_vm1 None host_created) = Inr 42
   \<and> new_events host_created (snd (snd (start_vm cfg_ollama start_env_ok inst_vm1 None host_created)))
     = [Launched [''/bin/sleep'', ''60''] 42, ManifestWritten ''vm1'' ''running'',
        Put ''/boot-source'' (Inr 204), Put ''/machine-config'' (Inr 204)]"
proof -
  have w: "se_write_config start_env_ok = None" by (simp add: start_env_ok_def)
  have j: "vm_use_jailer cfg_ollama = False" by (simp add: cfg_ollama_def)
  have v: "vm_id inst_vm1 = ''vm1''" by (simp add: inst_vm1_def)
  have sp: "socket_path inst_vm1 = Some ''/tmp/firecracker-vm1.socket''" by (simp add: inst_vm1_def)
  obtain c where c: "vm_cfg inst_vm1 = Some c" by (simp add: inst_vm1_def)
  show ?thesis
    unfolding start_vm1_unfold[OF w]
    by (simp add: start_try_def case_prod_beta Let_def start_failed_events sync_registry_props
          start_failed_props start_launcher_props put_json_props write_manifest_props
          new_events_def before_try_props j v c sp start_try_vm1_cmd
          start_env_ok_def popen_ok_def write_ok_def put_204_def put_outcome_def)
qed

lemma start_200_vm1:
  "fst (start_vm cfg_ollama start_env_200 inst_vm1 None host_created) = Inr 42
   \<and> new_events host_created (snd (snd (start_vm cfg_ollama start_env_200 inst_vm1 None host_created)))
     = [Launched [''/bin/sleep'', ''60''] 42, ManifestWritten ''vm1'' ''running'',
        Put ''/boot-source'' (Inr 200), Put ''/machine-config'' (Inr 200)]"
proof -
  have w: "se_write_config start_env_200 = None" by (simp add: start_env_200_def start_env_ok_def)
  have j: "vm_use_jailer cfg_ollama = False" by (simp add: cfg_ollama_def)
  have v: "vm_id inst_vm1 = ''vm1''" by (simp add: inst_vm1_def)
  have sp: "socket_path inst_vm1 = Some ''/tmp/firecracker-vm1.socket''" by (simp add: inst_vm1_def)
  obtain c where c: "vm_cfg inst_vm1 = Some c" by (simp add: inst_vm1_def)
  show ?thesis
    unfolding start_vm1_unfold[OF w]
    by (simp add: start_try_def case_prod_beta Let_def start_failed_events sync_registry_props
          start_failed_props start_launcher_props put_json_props write_manifest_props
          new_events_def before_try_props j v c sp start_try_vm1_cmd
          start_env_200_def start_env_ok_def popen_ok_def write_ok_def put_200_def put_outcome_def)
qed

lemma start_no_launch_vm1:
  "fst (start_vm cfg_ollama start_env_no_launch_no_write inst_vm1 None host_created)
     = Inl (FileNotFoundError ''launcher'')
   \<and> manifest_state cfg_ollama ''vm1''
        (snd (snd (start_vm cfg_ollama start_env_no_launch_no_write inst_vm1 None host_created)))
       = Some ''pending''"
proof -
  have w: "se_write_config start_env_no_launch_no_write = None"
    by (simp add: start_env_no_launch_no_write_def start_env_ok_def)
  have j: "vm_use_jailer cfg_ollama = False" by (simp add: cfg_ollama_def)
  have v: "vm_id inst_vm1 = ''vm1''" by (simp add: inst_vm1_def)
  have sp: "socket_path inst_vm1 = Some ''/tmp/firecracker-vm1.socket''" by (simp add: inst_vm1_def)
  obtain c where c: "vm_cfg inst_vm1 = Some c" by (simp add: inst_vm1_def)
  have m: "manifest_state cfg_ollama ''vm1'' host_created = Some ''pending''"
    using host_created_vm1 by simp
  have keep: "manifest_state cfg_ollama ''vm1''
                (snd (start_launcher start_env_no_launch_no_write ''vm1'' (vm_config_file ''vm1'')
                        (paths_results cfg_ollama) False [kernel_image_path c, rootfs_path c]
                        (stale_socket_removed inst_vm1 (config_written inst_vm1 host_created))))
              = manifest_state cfg_ollama ''vm1'' host_created"
    by (simp add: manifest_state_def start_launcher_def Let_def stale_socket_removed_def
          config_written_def sp v manifest_file_def results_dir_def path_join_def
          vm_config_file_def cfg_ollama_def start_env_no_launch_no_write_def start_env_ok_def
          popen_fails_def)
  show ?thesis
    unfolding start_vm1_unfold[OF w]
    using keep m
    by (simp add: start_try_def case_prod_beta Let_def sync_registry_props
          start_failed_def start_launcher_props write_manifest_pair
          j v c sp start_try_vm1_cmd
          start_env_no_launch_no_write_def start_env_ok_def popen_fails_def write_fails_def)
qed

theorem start_vm_failure_marks_failed_witness:
  "raised_in_try start_env_refused inst_vm1 None
     (fst (start_vm cfg_ollama start_env_refused inst_vm1 None host_created))
   \<and> se_manifest_write start_env_refused ''failed'' = None
   \<and> manifest_state cfg_ollama ''vm1''
        (snd (snd (start_vm cfg_ollama start_env_refused inst_vm1 None host_created))) = Some ''failed''
   \<and> active_interfaces (snd (snd (start_vm cfg_ollama start_env_refused inst_vm1 None host_created)))
       = active_interfaces host_created"
proof -
  have r: "raised_in_try start_env_refused inst_vm1 None
             (fst (start_vm cfg_ollama start_env_refused inst_vm1 None host_created))"
    using start_refused_vm1
    by (simp add: raised_in_try_def start_env_refused_def start_env_ok_def)
  have w: "se_manifest_write start_env_refused ''failed'' = None"
    by (simp add: start_env_refused_def start_env_ok_def write_ok_def)
  have v: "vm_id inst_vm1 = ''vm1''" by (simp add: inst_vm1_def)
  show ?thesis
    using start_vm_failure_marks_failed[of cfg_ollama start_env_refused inst_vm1 None host_created]
      r w v
    by simp
qed

text \<open>
  On the host where \<open>vm1\<close> was attached and then created: a start whose control socket
  refuses the connection raises and leaves the attachment of \<open>vm1\<close> in the Network
  Manager's registry; a start whose launcher cannot spawn, on a host where the manifest
  cannot be written, raises and leaves the manifest at \<open>pending\<close>.
\<close>

theorem start_vm_attachment_remains_counterexample:
  "fst (start_vm cfg_ollama start_env_refused inst_vm1 None host_created)
     = Inl (ConnectionError ''refused'')
   \<and> active_interfaces (snd (snd (start_vm cfg_ollama start_env_refused inst_vm1 None host_created)))
        ''vm1''
       = Some \<lparr> if_tap_name = ''tapvm1'', if_cidr = ''10.0.0.0/24'',
                if_gateway_ip = ''10.0.0.1'', if_vm_ip = ''10.0.0.2'' \<rparr>
   \<and> fst (start_vm cfg_ollama start_env_no_launch_no_write inst_vm1 None host_created)
       = Inl (FileNotFoundError ''launcher'')
   \<and> manifest_state cfg_ollama ''vm1''
        (snd (snd (start_vm cfg_ollama start_env_no_launch_no_write inst_vm1 None host_created)))
       = Some ''pending''"
  using start_refused_vm1 start_no_launch_vm1 host_created_vm1 host_attached_vm1
    start_vm_net[of cfg_ollama start_env_refused inst_vm1 None host_created]
  by simp

theorem start_vm_running_written_before_config_witness:
  "fst (start_vm cfg_ollama start_env_ok inst_vm1 None host_created) = Inr 42
   \<and> puts_after_running ''vm1'' False
        (new_events host_created (snd (snd (start_vm cfg_ollama start_env_ok inst_vm1 None host_created))))
   \<and> manifest_state cfg_ollama ''vm1''
        (snd (snd (start_vm cfg_ollama start_env_ok inst_vm1 None host_created))) = Some ''running''"
proof -
  have v: "vm_id inst_vm1 = ''vm1''" by (simp add: inst_vm1_def)
  have f: "fst (start_vm cfg_ollama start_env_ok inst_vm1 None host_created) = Inr 42"
    using start_ok_vm1 by simp
  note t = start_vm_running_written_before_config
             [of inst_vm1 host_created cfg_ollama start_env_ok None, unfolded v]
  from t have a: "puts_after_running ''vm1'' False
        (new_events host_created (snd (snd (start_vm cfg_ollama start_env_ok inst_vm1 None host_created))))"
    by (rule conjunct1)
  from t f have b: "manifest_state cfg_ollama ''vm1''
        (snd (snd (start_vm cfg_ollama start_env_ok inst_vm1 None host_created))) = Some ''running''"
    by simp
  show ?thesis using f a b by simp
qed

text \<open>
  A start in which everything succeeds writes \<open>running\<close> before either document is
  pushed; a start whose first request is refused had the manifest at \<open>running\<close> although
  no document was ever accepted; and a start whose requests are answered 200, which is
  not the success status, returns with the manifest at \<open>running\<close>.
\<close>

theorem start_vm_running_first_counterexample:
  "new_events host_created (snd (snd (start_vm cfg_ollama start_env_ok inst_vm1 None host_created)))
     = [Launched [''/bin/sleep'', ''60''] 42, ManifestWritten ''vm1'' ''running'',
        Put ''/boot-source'' (Inr 204), Put ''/machine-config'' (Inr 204)]
   \<and> \<not> running_after_config ''vm1'' False False
         (new_events host_created
            (snd (snd (start_vm cfg_ollama start_env_ok inst_vm1 None host_created))))
   \<and> new_events host_created
        (snd (snd (start_vm cfg_ollama start_env_refused inst_vm1 None host_created)))
     = [Launched [''/bin/sleep'', ''60''] 42, ManifestWritten ''vm1'' ''running'',
        Put ''/boot-source'' (Inl (ConnectionError ''refused'')), ManifestWritten ''vm1'' ''failed'']
   \<and> fst (start_vm cfg_ollama start_env_200 inst_vm1 None host_created) = Inr 42
   \<and> new_events host_created (snd (snd (start_vm cfg_ollama start_env_200 inst_vm1 None host_created)))
     = [Launched [''/bin/sleep'', ''60''] 42, ManifestWritten ''vm1'' ''running'',
        Put ''/boot-source'' (Inr 200), Put ''/machine-config'' (Inr 200)]"
  using start_ok_vm1 start_refused_vm1 start_200_vm1 by simp

section \<open>Stopping: what two stops leave behind\<close>

lemma running_vm1: "process inst_running = Some 42 \<and> 42 \<in> procs host_running"
proof -
  have w: "se_write_config start_env_ok = None" by (simp add: start_env_ok_def)
  have j: "vm_use_jailer cfg_ollama = False" by (simp add: cfg_ollama_def)
  have v: "vm_id inst_vm1 = ''vm1''" by (simp add: inst_vm1_def)
  have sp: "socket_path inst_vm1 = Some ''/tmp/firecracker-vm1.socket''" by (simp add: inst_vm1_def)
  obtain c where c: "vm_cfg inst_vm1 = Some c" by (simp add: inst_vm1_def)
  show ?thesis
    unfolding inst_running_def host_running_def start_vm1_unfold[OF w]
    by (simp add: start_try_def case_prod_beta Let_def sync_registry_def
          start_launcher_def put_json_def write_manifest_pair
          j v c sp start_try_vm1_cmd
          start_env_ok_def popen_ok_def write_ok_def put_204_def put_outcome_def)
qed

text \<open>
  On the host where \<open>vm1\<close> was attached and then created, two stops in a row leave the
  attachment of \<open>vm1\<close> in the Network Manager's registry and the shared-channel image
  on disk. And a stop of the running \<open>vm1\<close> raises when the process may not be
  signalled.
\<close>

theorem stop_vm_leaves_attachment_counterexample:
  "fst (create_vm cfg_ollama create_env_ok ''vm1'' (Some task_ok) host_attached) = Inr inst_vm1
   \<and> fst (stop_vm stop_env_ok inst_vm1 host_created) = None
   \<and> fst (stop_vm stop_env_ok inst_vm1 host_stopped_once) = None
   \<and> active_interfaces host_stopped_twice ''vm1''
       = Some \<lparr> if_tap_name = ''tapvm1'', if_cidr = ''10.0.0.0/24'',
                if_gateway_ip = ''10.0.0.1'', if_vm_ip = ''10.0.0.2'' \<rparr>
   \<and> fs host_stopped_twice ''/tmp/shared-vm1.ext4'' = Some Blob
   \<and> fst (stop_vm stop_env_denied inst_running host_running)
       = Some (OSError ''Operation not permitted'')"
proof -
  have den: "fst (stop_vm stop_env_denied inst_running host_running)
               = Some (OSError ''Operation not permitted'')"
    using running_vm1
    by (simp add: stop_vm_def terminate_if_alive_def terminate_process_def stop_env_denied_def
          stop_env_ok_def)
  note att = host_attached_vm1[THEN conjunct1]
  have cr: "active_interfaces host_created = active_interfaces host_attached
            \<and> fs host_created ''/tmp/shared-vm1.ext4'' = Some Blob"
    using host_created_vm1 by simp
  have np: "''/tmp/shared-vm1.ext4'' \<notin> cleanup_paths inst_vm1"
    by (simp add: cleanup_paths_def inst_vm1_def vm_config_file_def)
  have s1: "active_interfaces host_stopped_once = active_interfaces host_created
            \<and> fs host_stopped_once ''/tmp/shared-vm1.ext4'' = fs host_created ''/tmp/shared-vm1.ext4''"
    using np by (simp add: host_stopped_once_def stop_vm_caught_props[OF stop_env_ok_caught])
  have s2: "active_interfaces host_stopped_twice = active_interfaces host_stopped_once
            \<and> fs host_stopped_twice ''/tmp/shared-vm1.ext4'' = fs host_stopped_once ''/tmp/shared-vm1.ext4''"
    using np by (simp add: host_stopped_twice_def stop_vm_caught_props[OF stop_env_ok_caught])
  have r: "fst (stop_vm stop_env_ok inst_vm1 host_created) = None
           \<and> fst (stop_vm stop_env_ok inst_vm1 host_stopped_once) = None"
    by (simp add: stop_vm_caught_props[OF stop_env_ok_caught])
  show ?thesis using created_vm1 att cr s1 s2 r den by simp
qed

end
